theory Spec2Isabelle
  imports Main "HOL-Library.AList"
begin

section \<open>Values shared by both parts of the source\<close>

text \<open>
  JavaScript values that occur in compiler options: booleans, numbers and strings.
  \<open>truthy\<close> is the coercion performed by \<open>a || b\<close> and \<open>if (a)\<close>.
\<close>

datatype jsval = JBool bool | JNum int | JStr string

fun truthy :: "jsval \<Rightarrow> bool" where
  "truthy (JBool b) = b"
| "truthy (JNum n) = (n \<noteq> 0)"
| "truthy (JStr s) = (s \<noteq> [])"

text \<open>
  A JavaScript string is a sequence of UTF-16 code units. The strings whose characters
  the source classifies (the white space of a regular expression), and the messages
  they end up in, are kept as their code units; the byte strings used everywhere
  else are read as the code units of their characters.
\<close>

type_synonym ustring = "nat list"

definition units :: "string \<Rightarrow> ustring" where
  "units s = map of_char s"

text \<open>The plain nested structure that \<open>toObject\<close> builds and \<open>JSON.stringify\<close> prints.\<close>

datatype json = JString string | JNumber int | JArray "json list" | JObject "(string \<times> json) list"

text \<open>An object literal is an association list; \<open>{...a, ...b}\<close> lets \<open>b\<close> override \<open>a\<close>.\<close>

type_synonym CompilerOptions = "(string \<times> jsval) list"

definition spread :: "('k \<times> 'v) list \<Rightarrow> ('k \<times> 'v) list \<Rightarrow> ('k \<times> 'v) list" where
  "spread a b = fold (\<lambda>(k, v). AList.update k v) b a"

definition option_truthy :: "CompilerOptions \<Rightarrow> string \<Rightarrow> bool" where
  "option_truthy opts k = (case map_of opts k of None \<Rightarrow> False | Some v \<Rightarrow> truthy v)"

section \<open>application.ts: the compiler interface\<close>

record Diagnostic =
  code :: int
  messageText :: string

record ProjectReference =
  path :: string

record ParsedCommandLine =
  options :: CompilerOptions
  fileNames :: "string list"
  projectReferences :: "ProjectReference list option"

record ResolvedProjectReference =
  commandLine :: ParsedCommandLine

text \<open>
  A \<open>ts.Program\<close> is seen through the three queries \<open>convert\<close> makes of it:
  \<open>getRootFileNames()\<close>, \<open>getResolvedProjectReferences()\<close> (an array whose entries may
  be \<open>undefined\<close>, or \<open>undefined\<close> altogether) and \<open>ts.getPreEmitDiagnostics(program)\<close>.
\<close>

record Program =
  rootFileNames :: "string list"
  resolvedProjectReferences :: "ResolvedProjectReference option list option"
  preEmitDiagnostics :: "Diagnostic list"

record CreateProgramOptions =
  cp_rootNames :: "string list"
  cp_options :: CompilerOptions
  cp_projectReferences :: "ProjectReference list option"

record Stats =
  isDirectory :: bool

text \<open>
  Everything \<open>application.ts\<close> imports and calls but does not define is a field of the
  environment: the \<open>typescript\<close> module, \<open>fs\<close>, \<open>path\<close>, \<open>normalizePath\<close>,
  \<open>createMinimatch\<close> (one matcher per pattern), the peer dependency on TypeScript
  read from \<open>package.json\<close>, the converter component and the serializer's export of a project.
  \<open>statSync\<close> and \<open>readdirSync\<close> throw where they yield \<open>None\<close>; the promise of
  \<open>FS.promises.writeFile\<close> is rejected where \<open>writeFile\<close> is \<open>False\<close>.
\<close>

record 'p Env =
  ts_version :: ustring
  ts_versionMajorMinor :: ustring
  typeScriptPath :: ustring
  peerDependencies_typescript :: ustring
  createProgram :: "CreateProgramOptions \<Rightarrow> Program"
  converter_convert :: "string list \<Rightarrow> Program list \<Rightarrow> 'p"
  path_resolve :: "string \<Rightarrow> string"
  path_join :: "string \<Rightarrow> string \<Rightarrow> string"
  normalizePath :: "string \<Rightarrow> string"
  existsSync :: "string \<Rightarrow> bool"
  statSync :: "string \<Rightarrow> Stats option"
  readdirSync :: "string \<Rightarrow> string list option"
  minimatch :: "string \<Rightarrow> string \<Rightarrow> bool"
  path_dirname :: "string \<Rightarrow> string"
  path_basename :: "string \<Rightarrow> string"
  serializer_toObject :: "'p \<Rightarrow> json"
  JSON_stringify :: "json \<Rightarrow> string"
  writeFile :: "string \<Rightarrow> string \<Rightarrow> bool"

text \<open>The option values the \<open>Application\<close> instance reads.\<close>

record Application =
  compilerOptions :: CompilerOptions
  optFileNames :: "string list"
  optProjectReferences :: "ProjectReference list"
  entryPoints :: "string list"
  exclude :: "string list"

datatype LogEntry =
    Verbose ustring "ustring list"
  | Warn ustring
  | Diagnostics "Diagnostic list"
  | Success ustring "ustring list"

record EventData =
  outputDirectory :: string
  outputFile :: string

record ProjectToObjectEvents =
  ev_begin :: "EventData option"
  ev_end :: "EventData option"

text \<open>What the serializer's listeners observe, in order.\<close>

datatype 'p SerializeEvent =
    EVENT_BEGIN 'p "EventData option"
  | ExportPass 'p
  | EVENT_END 'p "EventData option"

text \<open>
  The observable state: what the logger received, the calls made to
  \<open>converter.convert\<close>, the events the serializer triggered and the files written.
\<close>

record 'p AppState =
  logged :: "LogEntry list"
  converterCalls :: "(string list \<times> Program list) list"
  serializeEvents :: "'p SerializeEvent list"
  written :: "(string \<times> string) list"

datatype error = ReaddirFailed string | WriteFailed string

definition IGNORED_DIAGNOSTICS :: "int list" where
  "IGNORED_DIAGNOSTICS = [1208, 1375, 1103, 2306, 2691, 2792, 5009, 5055, 5070, 7016]"

text \<open>\<open>ts.JsxEmit.React\<close>, \<open>ts.ModuleKind.ESNext\<close> and \<open>ts.ScriptTarget.ESNext\<close> are 2, 99, 99.\<close>

definition SNAPSHOT_COMPILE_OPTIONS :: CompilerOptions where
  "SNAPSHOT_COMPILE_OPTIONS =
     [(''esModuleInterop'', JBool True), (''jsx'', JNum 2), (''module'', JNum 99),
      (''noEmit'', JBool True), (''strict'', JBool True), (''target'', JNum 99)]"

section \<open>String helpers\<close>

definition endsWith :: "'a list \<Rightarrow> 'a list \<Rightarrow> bool" where
  "endsWith s suf = (length suf \<le> length s \<and> drop (length s - length suf) s = suf)"

fun join :: "'a list \<Rightarrow> 'a list list \<Rightarrow> 'a list" where
  "join sep [] = []"
| "join sep [x] = x"
| "join sep (x # y # ys) = x @ sep @ join sep (y # ys)"

definition digit :: "nat \<Rightarrow> char" where
  "digit d = char_of (48 + d)"

fun string_of_nat :: "nat \<Rightarrow> string" where
  "string_of_nat n = (if n < 10 then [digit n] else string_of_nat (n div 10) @ [digit (n mod 10)])"

declare string_of_nat.simps [simp del]

text \<open>\<open>s.split("||")\<close>: \<open>cur\<close> is the piece being read, last character first.\<close>

fun split_bars :: "ustring \<Rightarrow> ustring \<Rightarrow> ustring list" where
  "split_bars cur [] = [rev cur]"
| "split_bars cur [c] = [rev (c # cur)]"
| "split_bars cur (c # d # ds) =
     (if c = of_char CHR ''|'' \<and> d = of_char CHR ''|'' then rev cur # split_bars [] ds
      else split_bars (c # cur) (d # ds))"

text \<open>
  The code units that \<open>\s\<close> matches: the white space of the language (tab, vertical
  tab, form feed, space, no-break space, U+FEFF and the space separators U+1680,
  U+2000 to U+200A, U+202F, U+205F, U+3000) and its line terminators (line feed,
  carriage return, U+2028, U+2029).
\<close>

definition isSpace :: "nat \<Rightarrow> bool" where
  "isSpace c =
     (c \<in> {0x09, 0x0A, 0x0B, 0x0C, 0x0D, 0x20, 0xA0, 0x1680, 0x2028, 0x2029, 0x202F, 0x205F, 0x3000, 0xFEFF}
      \<or> (0x2000 \<le> c \<and> c \<le> 0x200A))"

text \<open>
  \<open>version.replace(/^\s*|\.x\s*$/g, "")\<close>. The first alternative matches at index 0
  and removes the leading white space. The second removes a final \<open>.x\<close> with the
  white space after it; the search for it resumes after the first match, and one
  character further when that match was empty, so a \<open>.x\<close> at index 0 of a string
  without leading white space stays.
\<close>

definition stripVersion :: "ustring \<Rightarrow> ustring" where
  "stripVersion version =
     (let v = dropWhile isSpace version;
          body = rev (dropWhile isSpace (rev v))
      in if endsWith body (units ''.x'') \<and> \<not> (v = version \<and> body = units ''.x'')
         then take (length body - 2) body
         else v)"

text \<open>
  Modelled from the spec: \<open>flatMap\<close> of \<open>./utils/array\<close> is not in the sources; it maps
  every element to a list and concatenates the lists in order.
\<close>

definition flatMap :: "'a list \<Rightarrow> ('a \<Rightarrow> 'b list) \<Rightarrow> 'b list" where
  "flatMap xs f = concat (map f xs)"

section \<open>Application.expandInputFiles\<close>

definition isExcluded :: "'p Env \<Rightarrow> Application \<Rightarrow> string \<Rightarrow> bool" where
  "isExcluded E app fileName = list_ex (\<lambda>mm. minimatch E mm fileName) (exclude app)"

text \<open>
  \<open>/\.[tj]sx?$/\<close> when \<open>allowJs\<close> or \<open>checkJs\<close> is set, \<open>/\.tsx?$/\<close> otherwise: the
  name ends in one of the listed extensions.
\<close>

definition supportedFileRegex :: "Application \<Rightarrow> string \<Rightarrow> bool" where
  "supportedFileRegex app file =
     (if option_truthy (compilerOptions app) ''allowJs'' \<or> option_truthy (compilerOptions app) ''checkJs''
      then endsWith file ''.ts'' \<or> endsWith file ''.tsx'' \<or> endsWith file ''.js'' \<or> endsWith file ''.jsx''
      else endsWith file ''.ts'' \<or> endsWith file ''.tsx'')"

text \<open>
  The inner function \<open>add(file, entryPoint)\<close>, with the array \<open>files\<close> it pushes to
  passed through. The recursion follows the directory listing and need not end (the
  file system is whatever \<open>fs\<close> answers), so every call spends one unit of fuel;
  \<open>None\<close> is a run that outlasts its fuel, \<open>Some (Inl e)\<close> an exception that leaves
  \<open>add\<close>, \<open>Some (Inr files)\<close> a normal return.
\<close>

fun forEachM :: "('a \<Rightarrow> 's \<Rightarrow> (error + 's) option) \<Rightarrow> 'a list \<Rightarrow> 's \<Rightarrow> (error + 's) option" where
  "forEachM f [] s = Some (Inr s)"
| "forEachM f (x # xs) s =
     (case f x s of
        Some (Inr s') \<Rightarrow> forEachM f xs s'
      | r \<Rightarrow> r)"

definition withSlash :: "Stats \<Rightarrow> string \<Rightarrow> string" where
  "withSlash stats file = (if isDirectory stats \<and> \<not> endsWith file ''/'' then file @ ''/'' else file)"

fun add :: "'p Env \<Rightarrow> Application \<Rightarrow> nat \<Rightarrow> string \<Rightarrow> bool \<Rightarrow> string list \<Rightarrow> (error + string list) option" where
  "add E app 0 file entryPoint files = None"
| "add E app (Suc n) file entryPoint files =
     (case statSync E file of
        None \<Rightarrow> Some (Inr files)
      | Some stats \<Rightarrow>
          (let fileIsDir = isDirectory stats;
               file' = withSlash stats file
           in if \<not> entryPoint \<and> isExcluded E app (normalizePath E file') then Some (Inr files)
              else if fileIsDir then
                (case readdirSync E file' of
                   None \<Rightarrow> Some (Inl (ReaddirFailed file'))
                 | Some names \<Rightarrow>
                     forEachM (\<lambda>next. add E app n (path_join E file' next) False) names files)
              else if supportedFileRegex app file' then Some (Inr (files @ [normalizePath E file']))
              else Some (Inr files)))"

definition missingEntryPoint :: "string \<Rightarrow> LogEntry" where
  "missingEntryPoint file =
     Warn (units (''Provided entry point '' @ file @
                  '' does not exist and will not be included in the docs.''))"

text \<open>The \<open>inputFiles.forEach\<close> loop: the outcome, and the logger's entries after it.\<close>

fun forEach_inputFiles ::
  "'p Env \<Rightarrow> Application \<Rightarrow> nat \<Rightarrow> string list \<Rightarrow> string list \<Rightarrow> LogEntry list
     \<Rightarrow> (error + string list) option \<times> LogEntry list" where
  "forEach_inputFiles E app n [] files lg = (Some (Inr files), lg)"
| "forEach_inputFiles E app n (file # rest) files lg =
     (let resolved = path_resolve E file
      in if \<not> existsSync E resolved
         then forEach_inputFiles E app n rest files (lg @ [missingEntryPoint file])
         else (case add E app n resolved True files of
                 Some (Inr files') \<Rightarrow> forEach_inputFiles E app n rest files' lg
               | r \<Rightarrow> (r, lg)))"

definition expandInputFiles ::
  "'p Env \<Rightarrow> Application \<Rightarrow> nat \<Rightarrow> string list \<Rightarrow> LogEntry list
     \<Rightarrow> (error + string list) option \<times> LogEntry list" where
  "expandInputFiles E app n inputFiles lg = forEach_inputFiles E app n inputFiles [] lg"

section \<open>Application.convert\<close>

definition emitFunc :: "Program \<Rightarrow> Diagnostic list" where
  "emitFunc program = filter (\<lambda>d. code d \<notin> set IGNORED_DIAGNOSTICS) (preEmitDiagnostics program)"

definition programOfReference :: "'p Env \<Rightarrow> ResolvedProjectReference \<Rightarrow> Program" where
  "programOfReference E ref =
     createProgram E
       \<lparr>cp_rootNames = fileNames (commandLine ref),
        cp_options = spread (options (commandLine ref)) SNAPSHOT_COMPILE_OPTIONS,
        cp_projectReferences = projectReferences (commandLine ref)\<rparr>"

text \<open>The loop over the resolved references: an \<open>undefined\<close> entry is passed over.\<close>

fun referencePrograms :: "'p Env \<Rightarrow> ResolvedProjectReference option list \<Rightarrow> Program list" where
  "referencePrograms E [] = []"
| "referencePrograms E (None # refs) = referencePrograms E refs"
| "referencePrograms E (Some ref # refs) = programOfReference E ref # referencePrograms E refs"

definition primaryProgram :: "'p Env \<Rightarrow> Application \<Rightarrow> Program" where
  "primaryProgram E app =
     createProgram E
       \<lparr>cp_rootNames = optFileNames app,
        cp_options = spread (compilerOptions app) SNAPSHOT_COMPILE_OPTIONS,
        cp_projectReferences = Some (optProjectReferences app)\<rparr>"

definition isSolutionStyle :: "'p Env \<Rightarrow> Application \<Rightarrow> bool" where
  "isSolutionStyle E app = (length (rootFileNames (primaryProgram E app)) = 0)"

definition programs :: "'p Env \<Rightarrow> Application \<Rightarrow> Program list" where
  "programs E app =
     (if isSolutionStyle E app
      then [primaryProgram E app] @
           referencePrograms E
             (case resolvedProjectReferences (primaryProgram E app) of None \<Rightarrow> [] | Some rs \<Rightarrow> rs)
      else [primaryProgram E app])"

definition supportedVersionMajorMinor :: "'p Env \<Rightarrow> ustring list" where
  "supportedVersionMajorMinor E = map stripVersion (split_bars [] (peerDependencies_typescript E))"

definition versionSupported :: "'p Env \<Rightarrow> bool" where
  "versionSupported E = list_ex (\<lambda>version. version = ts_versionMajorMinor E) (supportedVersionMajorMinor E)"

definition unsupportedVersion :: "'p Env \<Rightarrow> LogEntry" where
  "unsupportedVersion E =
     Warn (units ''You are running with an unsupported TypeScript version! TypeDoc supports '' @
           join (units '', '') (supportedVersionMajorMinor E))"

definition noCompilerOptions :: LogEntry where
  "noCompilerOptions =
     Warn (units (''No compiler options set. This likely means that TypeDoc did not find your tsconfig.json. '' @
                  ''Generated documentation will probably be empty.''))"

text \<open>The entries logged before the diagnostics are looked at, in the order of the source.\<close>

definition preamble :: "'p Env \<Rightarrow> Application \<Rightarrow> LogEntry list" where
  "preamble E app =
     [Verbose (units ''Using TypeScript %s from %s'') [ts_version E, typeScriptPath E]] @
     (if \<not> versionSupported E then [unsupportedVersion E] else []) @
     (if length (map fst (compilerOptions app)) = 0 then [noCompilerOptions] else []) @
     (if isSolutionStyle E app
      then [Verbose (units ''tsconfig appears to be a solution style tsconfig - creating programs for references'') []]
      else []) @
     [Verbose (units (''Converting with '' @ string_of_nat (length (programs E app)) @ '' programs'')) []]"

text \<open>
  \<open>convert\<close> returns \<open>undefined\<close> (\<open>None\<close>) or what the converter returned. The outcome
  is wrapped as for \<open>add\<close>, since \<open>expandInputFiles\<close> runs as the converter's argument.
\<close>

definition convert ::
  "'p Env \<Rightarrow> Application \<Rightarrow> nat \<Rightarrow> 'p AppState \<Rightarrow> (error + 'p option) option \<times> 'p AppState" where
  "convert E app fuel st =
     (let st1 = st\<lparr>logged := logged st @ preamble E app\<rparr>;
          errors = flatMap (programs E app) emitFunc
      in if length errors \<noteq> 0
         then (Some (Inr None), st1\<lparr>logged := logged st1 @ [Diagnostics errors]\<rparr>)
         else (case expandInputFiles E app fuel (entryPoints app) (logged st1) of
                 (Some (Inr files), lg) \<Rightarrow>
                   (Some (Inr (Some (converter_convert E files (programs E app)))),
                    st1\<lparr>logged := lg,
                        converterCalls := converterCalls st1 @ [(files, programs E app)]\<rparr>)
               | (Some (Inl e), lg) \<Rightarrow> (Some (Inl e), st1\<lparr>logged := lg\<rparr>)
               | (None, lg) \<Rightarrow> (None, st1\<lparr>logged := lg\<rparr>)))"

section \<open>Application.generateJson\<close>

text \<open>
  Modelled from the spec: \<open>Serializer.projectToObject\<close> of \<open>./serialization\<close> is not
  in the sources. The lifecycle hooks \<open>begin\<close> and \<open>end\<close> fire once each around a
  full export pass and pass the caller's metadata through; the export itself is the
  serializer's and does not look at the metadata.
\<close>

definition projectToObject ::
  "'p Env \<Rightarrow> 'p \<Rightarrow> ProjectToObjectEvents \<Rightarrow> 'p SerializeEvent list \<Rightarrow> json \<times> 'p SerializeEvent list" where
  "projectToObject E project eventData evs =
     (serializer_toObject E project,
      evs @ [EVENT_BEGIN project (ev_begin eventData), ExportPass project, EVENT_END project (ev_end eventData)])"

definition generateJson ::
  "'p Env \<Rightarrow> 'p \<Rightarrow> string \<Rightarrow> 'p AppState \<Rightarrow> (error + unit) \<times> 'p AppState" where
  "generateJson E project out0 st =
     (let out = path_resolve E out0;
          eventData = \<lparr>outputDirectory = path_dirname E out, outputFile = path_basename E out\<rparr>;
          (ser, evs) = projectToObject E project \<lparr>ev_begin = Some eventData, ev_end = Some eventData\<rparr>
                         (serializeEvents st);
          st1 = st\<lparr>serializeEvents := evs\<rparr>
      in if writeFile E out (JSON_stringify E ser)
         then (Inr (),
               st1\<lparr>written := written st1 @ [(out, JSON_stringify E ser)],
                   logged := logged st1 @ [Success (units ''JSON written to %s'') [units out]]\<rparr>)
         else (Inl (WriteFailed out), st1))"

section \<open>DeclarationReflection\<close>

text \<open>
  Modelled from the spec: the enumeration \<open>TraverseProperty\<close> is not in the sources.
  It is the structural role tag the visitor receives; the six members the source names
  are joined by the roles of the container and signature traversals.
\<close>

datatype TraverseProperty =
    Children | Parameters | TypeLiteral | TypeParameter
  | Signatures | IndexSignature | GetSignature | SetSignature

record SignatureReflection =
  sig_id :: int
  sig_name :: string
  sig_kind :: int

record TypeParameterReflection =
  tp_id :: int
  tp_name :: string
  tp_kind :: int

text \<open>
  A \<open>Type\<close> is either a \<open>ReflectionType\<close>, which carries the declaration of an inline
  type literal, or any other type, kept by its text.
\<close>

datatype 'd Type = ReflectionType (typeDeclaration: 'd) | OtherType string

text \<open>
  The fields of a declaration reflection: those of the base classes (\<open>ident\<close> for the
  source's \<open>id\<close>, \<open>name\<close>, \<open>kind\<close>, \<open>children\<close>) and those the source reads. A
  field that may be \<open>undefined\<close> is an option; the field \<open>type\<close> is \<open>type'\<close>.
\<close>

datatype DeclarationReflection = DeclarationReflection
  (ident: int)
  (name: string)
  (kind: int)
  (children: "DeclarationReflection list")
  (typeParameters: "TypeParameterReflection list option")
  (type': "DeclarationReflection Type option")
  (signatures: "SignatureReflection list option")
  (indexSignature: "SignatureReflection option")
  (getSignature: "SignatureReflection option")
  (setSignature: "SignatureReflection option")
  (defaultValue: "string option")
  (overwrites: "DeclarationReflection Type option")
  (inheritedFrom: "DeclarationReflection Type option")
  (extendedTypes: "DeclarationReflection Type list option")
  (extendedBy: "DeclarationReflection Type list option")
  (implementedTypes: "DeclarationReflection Type list option")
  (implementedBy: "DeclarationReflection Type list option")
  (implementationOf: "DeclarationReflection Type option")

text \<open>What a visitor callback is handed: a reflection of one of the three classes.\<close>

datatype Reflection =
    TypeParameterR TypeParameterReflection
  | DeclarationR DeclarationReflection
  | SignatureR SignatureReflection

subsection \<open>hasGetterOrSetter\<close>

definition hasGetterOrSetter :: "DeclarationReflection \<Rightarrow> bool" where
  "hasGetterOrSetter this = (getSignature this \<noteq> None \<or> setSignature this \<noteq> None)"

subsection \<open>getAllSignatures\<close>

text \<open>
  \<open>getAllSignatures\<close> builds its result with \<open>concat\<close>, which allocates, and
  \<open>push\<close>, which writes in place, so arrays live in a store: an address holds the
  elements of one array, and \<open>nextAddr\<close> is the next address to hand out.
\<close>

record 'a ArrayStore =
  cells :: "nat \<Rightarrow> 'a list option"
  nextAddr :: nat

definition elements :: "'a ArrayStore \<Rightarrow> nat \<Rightarrow> 'a list" where
  "elements h a = (case cells h a of None \<Rightarrow> [] | Some xs \<Rightarrow> xs)"

definition newArray :: "'a list \<Rightarrow> 'a ArrayStore \<Rightarrow> nat \<times> 'a ArrayStore" where
  "newArray xs h = (nextAddr h, h\<lparr>cells := (cells h)(nextAddr h \<mapsto> xs), nextAddr := Suc (nextAddr h)\<rparr>)"

definition array_concat :: "nat \<Rightarrow> nat \<Rightarrow> 'a ArrayStore \<Rightarrow> nat \<times> 'a ArrayStore" where
  "array_concat a b h = newArray (elements h a @ elements h b) h"

definition array_push :: "nat \<Rightarrow> 'a \<Rightarrow> 'a ArrayStore \<Rightarrow> 'a ArrayStore" where
  "array_push a x h = h\<lparr>cells := (cells h)(a \<mapsto> elements h a @ [x])\<rparr>"

text \<open>
  The array of \<open>this.signatures\<close> is in the store at the address \<open>sigs\<close> (there is none
  when the field is \<open>undefined\<close>); the three single signatures are read from \<open>this\<close>.
\<close>

definition getAllSignatures ::
  "nat option \<Rightarrow> DeclarationReflection \<Rightarrow> SignatureReflection ArrayStore
     \<Rightarrow> nat \<times> SignatureReflection ArrayStore" where
  "getAllSignatures sigs this h0 =
     (let (result, h1) = newArray [] h0;
          (result, h2) = (case sigs of Some a \<Rightarrow> array_concat result a h1 | None \<Rightarrow> (result, h1));
          h3 = (case indexSignature this of Some x \<Rightarrow> array_push result x h2 | None \<Rightarrow> h2);
          h4 = (case getSignature this of Some x \<Rightarrow> array_push result x h3 | None \<Rightarrow> h3);
          h5 = (case setSignature this of Some x \<Rightarrow> array_push result x h4 | None \<Rightarrow> h4)
      in (result, h5))"

text \<open>The store holds the signature array of \<open>this\<close> at \<open>sigs\<close>.\<close>

definition holdsSignatures ::
  "SignatureReflection ArrayStore \<Rightarrow> nat option \<Rightarrow> DeclarationReflection \<Rightarrow> bool" where
  "holdsSignatures h sigs this =
     (case sigs of
        None \<Rightarrow> signatures this = None
      | Some a \<Rightarrow> cells h a \<noteq> None \<and> cells h a = signatures this)"

text \<open>Addresses not yet handed out hold nothing.\<close>

definition storeOk :: "'a ArrayStore \<Rightarrow> bool" where
  "storeOk h = (\<forall>a. nextAddr h \<le> a \<longrightarrow> cells h a = None)"

subsection \<open>traverse\<close>

text \<open>
  The callback acts on the visitor's state. \<open>super\<close> is the traversal of the base
  class \<open>ContainerReflection\<close>, which the source calls last.
\<close>

definition traverse ::
  "((Reflection \<Rightarrow> TraverseProperty \<Rightarrow> 's \<Rightarrow> 's) \<Rightarrow> DeclarationReflection \<Rightarrow> 's \<Rightarrow> 's)
     \<Rightarrow> (Reflection \<Rightarrow> TraverseProperty \<Rightarrow> 's \<Rightarrow> 's) \<Rightarrow> DeclarationReflection \<Rightarrow> 's \<Rightarrow> 's" where
  "traverse super callback this s0 =
     (let s1 = (case typeParameters this of
                  Some ps \<Rightarrow> fold (\<lambda>parameter. callback (TypeParameterR parameter) TypeParameter) ps s0
                | None \<Rightarrow> s0);
          s2 = (case type' this of
                  Some (ReflectionType d) \<Rightarrow> callback (DeclarationR d) TypeLiteral s1
                | _ \<Rightarrow> s1);
          s3 = (case signatures this of
                  Some sigs \<Rightarrow> fold (\<lambda>signature. callback (SignatureR signature) Signatures) sigs s2
                | None \<Rightarrow> s2);
          s4 = (case indexSignature this of Some x \<Rightarrow> callback (SignatureR x) IndexSignature s3 | None \<Rightarrow> s3);
          s5 = (case getSignature this of Some x \<Rightarrow> callback (SignatureR x) GetSignature s4 | None \<Rightarrow> s4);
          s6 = (case setSignature this of Some x \<Rightarrow> callback (SignatureR x) SetSignature s5 | None \<Rightarrow> s5)
      in super callback this s6)"

subsection \<open>toObject\<close>

text \<open>
  \<open>if (this.f) body\<close>: the body runs when the field is set and its value is truthy. An
  object or an array, empty or not, is truthy; a string is truthy unless it is empty.
\<close>

definition ifTruthy :: "('a \<Rightarrow> bool) \<Rightarrow> 'a option \<Rightarrow> ('a \<Rightarrow> 's \<Rightarrow> 's) \<Rightarrow> 's \<Rightarrow> 's" where
  "ifTruthy t x body s = (case x of None \<Rightarrow> s | Some v \<Rightarrow> if t v then body v s else s)"

definition object :: "'a \<Rightarrow> bool" where
  "object v = True"

definition nonEmptyString :: "string \<Rightarrow> bool" where
  "nonEmptyString v = (v \<noteq> [])"

text \<open>
  \<open>super\<close> is \<open>toObject\<close> of the base class and \<open>typeToObject\<close> the \<open>toObject\<close> of
  the \<open>Type\<close> classes. An assignment \<open>result.k = v\<close> replaces the value of a key
  already there and appends a new key otherwise.
\<close>

definition toObject ::
  "(DeclarationReflection \<Rightarrow> (string \<times> json) list) \<Rightarrow> (DeclarationReflection Type \<Rightarrow> json)
     \<Rightarrow> DeclarationReflection \<Rightarrow> (string \<times> json) list" where
  "toObject super typeToObject this =
     (let result = super this;
          result = ifTruthy object (type' this)
                     (\<lambda>t. AList.update ''type'' (typeToObject t)) result;
          result = ifTruthy nonEmptyString (defaultValue this)
                     (\<lambda>v. AList.update ''defaultValue'' (JString v)) result;
          result = ifTruthy object (overwrites this)
                     (\<lambda>t. AList.update ''overwrites'' (typeToObject t)) result;
          result = ifTruthy object (inheritedFrom this)
                     (\<lambda>t. AList.update ''inheritedFrom'' (typeToObject t)) result;
          result = ifTruthy object (extendedTypes this)
                     (\<lambda>ts. AList.update ''extendedTypes'' (JArray (map typeToObject ts))) result;
          result = ifTruthy object (extendedBy this)
                     (\<lambda>ts. AList.update ''extendedBy'' (JArray (map typeToObject ts))) result;
          result = ifTruthy object (implementedTypes this)
                     (\<lambda>ts. AList.update ''implementedTypes'' (JArray (map typeToObject ts))) result;
          result = ifTruthy object (implementedBy this)
                     (\<lambda>ts. AList.update ''implementedBy'' (JArray (map typeToObject ts))) result;
          result = ifTruthy object (implementationOf this)
                     (\<lambda>t. AList.update ''implementationOf'' (typeToObject t)) result
      in result)"

section \<open>The serialized form and its reload\<close>

text \<open>
  The types a declaration carries, in the order \<open>toObject\<close> reads them. \<open>toObject\<close>
  applies its type exporter to these and to nothing else, which is what lets the
  export of a tree recurse through it.
\<close>

definition typesOf :: "DeclarationReflection \<Rightarrow> DeclarationReflection Type list" where
  "typesOf this =
     (case type' this of None \<Rightarrow> [] | Some t \<Rightarrow> [t]) @
     (case overwrites this of None \<Rightarrow> [] | Some t \<Rightarrow> [t]) @
     (case inheritedFrom this of None \<Rightarrow> [] | Some t \<Rightarrow> [t]) @
     (case extendedTypes this of None \<Rightarrow> [] | Some ts \<Rightarrow> ts) @
     (case extendedBy this of None \<Rightarrow> [] | Some ts \<Rightarrow> ts) @
     (case implementedTypes this of None \<Rightarrow> [] | Some ts \<Rightarrow> ts) @
     (case implementedBy this of None \<Rightarrow> [] | Some ts \<Rightarrow> ts) @
     (case implementationOf this of None \<Rightarrow> [] | Some t \<Rightarrow> [t])"

lemma ifTruthy_type_cong:
  "(\<And>t. x = Some t \<Longrightarrow> T t = T' t) \<Longrightarrow>
   ifTruthy c x (\<lambda>t. AList.update k (T t)) r = ifTruthy c x (\<lambda>t. AList.update k (T' t)) r"
  by (cases x) (simp_all add: ifTruthy_def)

lemma ifTruthy_types_cong:
  "(\<And>ts t. x = Some ts \<Longrightarrow> t \<in> set ts \<Longrightarrow> T t = T' t) \<Longrightarrow>
   ifTruthy c x (\<lambda>ts. AList.update k (JArray (map T ts))) r =
   ifTruthy c x (\<lambda>ts. AList.update k (JArray (map T' ts))) r"
proof (cases x)
  case None
  then show ?thesis by (simp add: ifTruthy_def)
next
  case (Some ts)
  assume "\<And>ts t. x = Some ts \<Longrightarrow> t \<in> set ts \<Longrightarrow> T t = T' t"
  with Some have m: "map T ts = map T' ts" by simp
  show ?thesis by (simp only: Some ifTruthy_def option.case m)
qed

lemma toObject_cong [fundef_cong]:
  assumes "this = this'" and "super this' = super' this'"
    and "\<And>t. t \<in> set (typesOf this') \<Longrightarrow> T t = T' t"
  shows "toObject super T this = toObject super' T' this'"
proof -
  have a: "type' this' = Some t \<Longrightarrow> T t = T' t" for t
    using assms(3)[of t] by (simp add: typesOf_def)
  have b: "overwrites this' = Some t \<Longrightarrow> T t = T' t" for t
    using assms(3)[of t] by (simp add: typesOf_def)
  have c: "inheritedFrom this' = Some t \<Longrightarrow> T t = T' t" for t
    using assms(3)[of t] by (simp add: typesOf_def)
  have d: "extendedTypes this' = Some ts \<Longrightarrow> t \<in> set ts \<Longrightarrow> T t = T' t" for t ts
    using assms(3)[of t] by (simp add: typesOf_def)
  have e: "extendedBy this' = Some ts \<Longrightarrow> t \<in> set ts \<Longrightarrow> T t = T' t" for t ts
    using assms(3)[of t] by (simp add: typesOf_def)
  have f: "implementedTypes this' = Some ts \<Longrightarrow> t \<in> set ts \<Longrightarrow> T t = T' t" for t ts
    using assms(3)[of t] by (simp add: typesOf_def)
  have g: "implementedBy this' = Some ts \<Longrightarrow> t \<in> set ts \<Longrightarrow> T t = T' t" for t ts
    using assms(3)[of t] by (simp add: typesOf_def)
  have h: "implementationOf this' = Some t \<Longrightarrow> T t = T' t" for t
    using assms(3)[of t] by (simp add: typesOf_def)
  show ?thesis
    unfolding toObject_def Let_def assms(1) assms(2)
    by (simp only: ifTruthy_type_cong[of "type' this'" T T', OF a]
        ifTruthy_type_cong[of "overwrites this'" T T', OF b]
        ifTruthy_type_cong[of "inheritedFrom this'" T T', OF c]
        ifTruthy_types_cong[of "extendedTypes this'" T T', OF d]
        ifTruthy_types_cong[of "extendedBy this'" T T', OF e]
        ifTruthy_types_cong[of "implementedTypes this'" T T', OF f]
        ifTruthy_types_cong[of "implementedBy this'" T T', OF g]
        ifTruthy_type_cong[of "implementationOf this'" T T', OF h])
qed

















section \<open>A worked configuration\<close>

text \<open>
  A small file system, compiler and project on which the properties below are run:
  the directory \<open>/src\<close> holds \<open>a.ts\<close>, \<open>b.ts\<close>, \<open>notes.md\<close> and the directory \<open>sub\<close>
  with \<open>c.tsx\<close>; a program whose roots include \<open>/src/bad.ts\<close> has a type error
  (2322), any other program only the ignored 7016; a program without roots resolves
  two references, the second of them unresolved.
\<close>

definition exampleStat :: "string \<Rightarrow> Stats option" where
  "exampleStat p =
     (if p = ''/src'' \<or> p = ''/src/'' \<or> p = ''/src/sub'' \<or> p = ''/src/sub/''
      then Some \<lparr>isDirectory = True\<rparr>
      else if p = ''/src/a.ts'' \<or> p = ''/src/b.ts'' \<or> p = ''/src/notes.md'' \<or> p = ''/src/sub/c.tsx''
      then Some \<lparr>isDirectory = False\<rparr>
      else None)"

definition exampleReaddir :: "string \<Rightarrow> string list option" where
  "exampleReaddir p =
     (if p = ''/src/'' then Some [''a.ts'', ''b.ts'', ''notes.md'', ''sub'']
      else if p = ''/src/sub/'' then Some [''c.tsx'']
      else None)"

definition exampleReference :: ResolvedProjectReference where
  "exampleReference =
     \<lparr>commandLine = \<lparr>options = [], fileNames = [''/pkg/index.ts''], projectReferences = None\<rparr>\<rparr>"

definition exampleCreateProgram :: "CreateProgramOptions \<Rightarrow> Program" where
  "exampleCreateProgram opts =
     \<lparr>rootFileNames = cp_rootNames opts,
      resolvedProjectReferences =
        (if cp_rootNames opts = [] then Some [Some exampleReference, None] else None),
      preEmitDiagnostics =
        (if ''/src/bad.ts'' \<in> set (cp_rootNames opts)
         then [\<lparr>code = 2322, messageText = ''Type mismatch''\<rparr>]
         else [\<lparr>code = 7016, messageText = ''No declaration file''\<rparr>])\<rparr>"

definition exampleEnv :: "nat Env" where
  "exampleEnv =
     \<lparr>ts_version = units ''4.1.3'', ts_versionMajorMinor = units ''4.1'',
      typeScriptPath = units ''/node_modules/typescript/lib'',
      peerDependencies_typescript = units ''3.9.x || 4.0.x'',
      createProgram = exampleCreateProgram,
      converter_convert = (\<lambda>files ps. length files + length ps),
      path_resolve = (\<lambda>p. p),
      path_join = (\<lambda>a b. a @ b),
      normalizePath = (\<lambda>p. p),
      existsSync = (\<lambda>p. exampleStat p \<noteq> None),
      statSync = exampleStat,
      readdirSync = exampleReaddir,
      minimatch = (\<lambda>pattern p. pattern = p),
      path_dirname = (\<lambda>p. ''/out''),
      path_basename = (\<lambda>p. ''docs.json''),
      serializer_toObject = (\<lambda>p. JObject [(''id'', JNumber (int p))]),
      JSON_stringify = (\<lambda>j. ''{}''),
      writeFile = (\<lambda>p c. True)\<rparr>"

definition exampleApp :: Application where
  "exampleApp =
     \<lparr>compilerOptions = [(''strict'', JBool True)],
      optFileNames = [''/src/a.ts''],
      optProjectReferences = [],
      entryPoints = [''/missing.ts'', ''/src''],
      exclude = [''/src/'', ''/src/b.ts'']\<rparr>"

definition exampleState :: "nat AppState" where
  "exampleState = \<lparr>logged = [], converterCalls = [], serializeEvents = [], written = []\<rparr>"

definition exampleSignature :: "int \<Rightarrow> string \<Rightarrow> SignatureReflection" where
  "exampleSignature i n = \<lparr>sig_id = i, sig_name = n, sig_kind = 4096\<rparr>"

text \<open>A declaration with nothing but its base fields set.\<close>

definition plainDeclaration :: "int \<Rightarrow> string \<Rightarrow> int \<Rightarrow> DeclarationReflection list \<Rightarrow> DeclarationReflection" where
  "plainDeclaration i n k cs =
     DeclarationReflection i n k cs None None None None None None None None None None None None None None"

text \<open>
  An interface \<open>Foo\<close> with two methods, one type parameter, an inline type literal, two
  call signatures, an index signature and a set signature, an empty default value
  and an empty list of extended types.
\<close>

definition exampleDeclaration :: DeclarationReflection where
  "exampleDeclaration =
     DeclarationReflection 1 ''Foo'' 256
       [plainDeclaration 2 ''bar'' 2048 [], plainDeclaration 3 ''baz'' 2048 []]
       (Some [\<lparr>tp_id = 4, tp_name = ''T'', tp_kind = 131072\<rparr>])
       (Some (ReflectionType (plainDeclaration 5 ''__type'' 65536 [])))
       (Some [exampleSignature 6 ''call'', exampleSignature 7 ''call''])
       (Some (exampleSignature 8 ''__index''))
       None
       (Some (exampleSignature 9 ''__set''))
       (Some [])
       None
       (Some (OtherType ''Base.foo''))
       (Some [])
       None
       None
       None
       None"

definition exampleTypeToObject :: "DeclarationReflection Type \<Rightarrow> json" where
  "exampleTypeToObject t =
     (case t of
        ReflectionType d \<Rightarrow> JObject [(''type'', JString ''reflection'')]
      | OtherType n \<Rightarrow> JObject [(''type'', JString ''reference''), (''name'', JString n)])"

text \<open>A base-class export that writes the identifier and the name.\<close>

definition exampleSuper :: "DeclarationReflection \<Rightarrow> (string \<times> json) list" where
  "exampleSuper this = [(''id'', JNumber (ident this)), (''name'', JString (name this))]"

definition exampleStore :: "SignatureReflection ArrayStore" where
  "exampleStore =
     \<lparr>cells = (\<lambda>a. if a = 0 then Some [exampleSignature 6 ''call'', exampleSignature 7 ''call''] else None),
      nextAddr = 1\<rparr>"

text \<open>
  A visitor that records what it is handed, and a base-class traversal that visits the
  children in order.
\<close>

definition record_visit ::
  "Reflection \<Rightarrow> TraverseProperty \<Rightarrow> (Reflection \<times> TraverseProperty) list
     \<Rightarrow> (Reflection \<times> TraverseProperty) list" where
  "record_visit r p visited = visited @ [(r, p)]"

definition container_traverse ::
  "(Reflection \<Rightarrow> TraverseProperty \<Rightarrow> 's \<Rightarrow> 's) \<Rightarrow> DeclarationReflection \<Rightarrow> 's \<Rightarrow> 's" where
  "container_traverse callback this s = fold (\<lambda>child. callback (DeclarationR child) Children) (children this) s"

section \<open>Properties of expandInputFiles\<close>

text \<open>The loop only ever appends to the log, and its outcome does not depend on the log.\<close>

lemma forEach_inputFiles_log:
  "\<exists>ws. snd (forEach_inputFiles E app n inputs files lg) = lg @ ws"
proof (induction inputs arbitrary: files lg)
  case Nil show ?case by simp
next
  case (Cons f rest)
  show ?case
  proof (cases "existsSync E (path_resolve E f)")
    case False
    obtain ws where "snd (forEach_inputFiles E app n rest files (lg @ [missingEntryPoint f])) = (lg @ [missingEntryPoint f]) @ ws"
      using Cons.IH by blast
    with False show ?thesis by (simp add: Let_def)
  next
    case True
    show ?thesis
    proof (cases "add E app n (path_resolve E f) True files")
      case None with True show ?thesis by (simp add: Let_def)
    next
      case (Some r)
      show ?thesis
      proof (cases r)
        case (Inl e) with Some True show ?thesis by (simp add: Let_def)
      next
        case (Inr fs)
        with Some True Cons.IH[of fs lg] show ?thesis by (simp add: Let_def)
      qed
    qed
  qed
qed







text \<open>Entry points that are plain files: the expansion does not look at the patterns.\<close>

lemma forEach_inputFiles_plain_files:
  assumes "\<forall>f \<in> set inputs. existsSync E (path_resolve E f) \<longrightarrow>
             (\<exists>stats. statSync E (path_resolve E f) = Some stats \<and> \<not> isDirectory stats)"
  shows "fst (forEach_inputFiles E app (Suc n) inputs acc lg) =
         Some (Inr (acc @ map (normalizePath E)
                      (filter (supportedFileRegex app)
                         (map (path_resolve E) (filter (\<lambda>f. existsSync E (path_resolve E f)) inputs)))))"
  using assms
proof (induction inputs arbitrary: acc lg)
  case Nil show ?case by simp
next
  case (Cons f rest)
  have ih: "fst (forEach_inputFiles E app (Suc n) rest acc' lg') =
         Some (Inr (acc' @ map (normalizePath E)
                      (filter (supportedFileRegex app)
                         (map (path_resolve E) (filter (\<lambda>f. existsSync E (path_resolve E f)) rest)))))"
    for acc' lg'
    using Cons by simp
  show ?case
  proof (cases "existsSync E (path_resolve E f)")
    case False
    then show ?thesis by (simp add: ih Let_def del: add.simps)
  next
    case True
    then obtain stats where st: "statSync E (path_resolve E f) = Some stats" "\<not> isDirectory stats"
      using Cons.prems by auto
    have "add E app (Suc n) (path_resolve E f) True acc =
          Some (Inr (if supportedFileRegex app (path_resolve E f)
                     then acc @ [normalizePath E (path_resolve E f)] else acc))"
      using st by (simp add: Let_def withSlash_def)
    then show ?thesis using True by (simp add: ih Let_def del: add.simps)
  qed
qed

text \<open>
  C8. A path the caller supplies reaches \<open>add\<close> as an entry point, wherever it stands
  in the list, and an entry point is never tested against the exclude patterns: a
  file is pushed when its extension is supported, a directory is listed and its
  entries added. A path found in a
  listing is dropped when it matches a pattern, and is otherwise treated as an entry
  point is. So when the entry points that exist are plain files, the result is
  these files, resolved and normalized, that have a supported extension, whatever
  the patterns are.
\<close>

theorem expandInputFiles_exclude_entry_points:
  "(existsSync E (path_resolve E f) \<longrightarrow>
      expandInputFiles E app n [f] lg = (add E app n (path_resolve E f) True [], lg))
   \<and> (existsSync E (path_resolve E f) \<longrightarrow>
        forEach_inputFiles E app n (f # rest) found lg =
          (case add E app n (path_resolve E f) True found of
             Some (Inr found') \<Rightarrow> forEach_inputFiles E app n rest found' lg
           | r \<Rightarrow> (r, lg)))
   \<and> (statSync E pth = Some stats \<and> \<not> isDirectory stats \<longrightarrow>
        add E app (Suc n) pth True acc =
          Some (Inr (if supportedFileRegex app pth then acc @ [normalizePath E pth] else acc)))
   \<and> (statSync E pth = Some stats \<and> isDirectory stats \<and> readdirSync E (withSlash stats pth) = Some names \<longrightarrow>
        add E app (Suc n) pth True acc =
          forEachM (\<lambda>next. add E app n (path_join E (withSlash stats pth) next) False) names acc)
   \<and> (statSync E pth = Some stats \<and> isExcluded E app (normalizePath E (withSlash stats pth)) \<longrightarrow>
        add E app (Suc n) pth False acc = Some (Inr acc))
   \<and> (statSync E pth = Some stats \<and> \<not> isExcluded E app (normalizePath E (withSlash stats pth)) \<longrightarrow>
        add E app (Suc n) pth False acc = add E app (Suc n) pth True acc)
   \<and> ((\<forall>f \<in> set inputFiles. existsSync E (path_resolve E f) \<longrightarrow>
           (\<exists>stats. statSync E (path_resolve E f) = Some stats \<and> \<not> isDirectory stats)) \<longrightarrow>
        fst (expandInputFiles E app (Suc n) inputFiles lg) =
          Some (Inr (map (normalizePath E)
                       (filter (supportedFileRegex app)
                          (map (path_resolve E)
                             (filter (\<lambda>f. existsSync E (path_resolve E f)) inputFiles))))))"
proof (intro conjI impI)
  assume "existsSync E (path_resolve E f)"
  then show "expandInputFiles E app n [f] lg = (add E app n (path_resolve E f) True [], lg)"
    by (simp add: expandInputFiles_def Let_def split: option.splits sum.splits)
next
  assume "existsSync E (path_resolve E f)"
  then show "forEach_inputFiles E app n (f # rest) found lg =
          (case add E app n (path_resolve E f) True found of
             Some (Inr found') \<Rightarrow> forEach_inputFiles E app n rest found' lg
           | r \<Rightarrow> (r, lg))"
    by (simp add: Let_def)
next
  assume "statSync E pth = Some stats \<and> \<not> isDirectory stats"
  then show "add E app (Suc n) pth True acc =
          Some (Inr (if supportedFileRegex app pth then acc @ [normalizePath E pth] else acc))"
    by (simp add: Let_def withSlash_def)
next
  assume "statSync E pth = Some stats \<and> isDirectory stats \<and> readdirSync E (withSlash stats pth) = Some names"
  then show "add E app (Suc n) pth True acc =
          forEachM (\<lambda>next. add E app n (path_join E (withSlash stats pth) next) False) names acc"
    by (simp add: Let_def)
next
  assume "statSync E pth = Some stats \<and> isExcluded E app (normalizePath E (withSlash stats pth))"
  then show "add E app (Suc n) pth False acc = Some (Inr acc)"
    by (simp add: Let_def)
next
  assume "statSync E pth = Some stats \<and> \<not> isExcluded E app (normalizePath E (withSlash stats pth))"
  then show "add E app (Suc n) pth False acc = add E app (Suc n) pth True acc"
    by (simp add: Let_def)
next
  assume "\<forall>f \<in> set inputFiles. existsSync E (path_resolve E f) \<longrightarrow>
           (\<exists>stats. statSync E (path_resolve E f) = Some stats \<and> \<not> isDirectory stats)"
  then show "fst (expandInputFiles E app (Suc n) inputFiles lg) =
          Some (Inr (map (normalizePath E)
                       (filter (supportedFileRegex app)
                          (map (path_resolve E)
                             (filter (\<lambda>f. existsSync E (path_resolve E f)) inputFiles)))))"
    unfolding expandInputFiles_def
    using forEach_inputFiles_plain_files[of inputFiles E app n "[]" lg] by simp
qed


section \<open>Properties of convert\<close>

lemma errors_nonempty:
  "(flatMap ps emitFunc \<noteq> []) =
   (\<exists>p \<in> set ps. \<exists>d \<in> set (preEmitDiagnostics p). code d \<notin> set IGNORED_DIAGNOSTICS)"
  by (auto simp: flatMap_def emitFunc_def filter_empty_conv)

lemma convert_abort:
  "flatMap (programs E app) emitFunc \<noteq> [] \<Longrightarrow>
   convert E app fuel st =
     (Some (Inr None),
      st\<lparr>logged := logged st @ preamble E app @ [Diagnostics (flatMap (programs E app) emitFunc)]\<rparr>)"
  by (simp add: convert_def Let_def)

lemma convert_proceed:
  assumes "flatMap (programs E app) emitFunc = []"
    and "expandInputFiles E app fuel (entryPoints app) (logged st @ preamble E app) = (r, lg)"
  shows "convert E app fuel st =
     (map_option (map_sum id (\<lambda>files. Some (converter_convert E files (programs E app)))) r,
      st\<lparr>logged := lg,
         converterCalls := (case r of Some (Inr files) \<Rightarrow> converterCalls st @ [(files, programs E app)]
                            | _ \<Rightarrow> converterCalls st)\<rparr>)"
proof (cases r)
  case None
  with assms show ?thesis by (simp add: convert_def Let_def)
next
  case (Some x)
  with assms show ?thesis by (cases x) (simp_all add: convert_def Let_def)
qed


lemma convert_runs_converter:
  assumes "\<forall>p \<in> set (programs E app). \<forall>d \<in> set (preEmitDiagnostics p). code d \<in> set IGNORED_DIAGNOSTICS"
    and "fst (expandInputFiles E app fuel (entryPoints app) (logged st @ preamble E app)) = Some (Inr files)"
  shows "fst (convert E app fuel st) = Some (Inr (Some (converter_convert E files (programs E app))))"
    and "converterCalls (snd (convert E app fuel st)) = converterCalls st @ [(files, programs E app)]"
proof -
  have e: "flatMap (programs E app) emitFunc = []"
    using assms(1) errors_nonempty[of "programs E app"] by blast
  obtain lg where x: "expandInputFiles E app fuel (entryPoints app) (logged st @ preamble E app) =
                        (Some (Inr files), lg)"
    using assms(2)
    by (cases "expandInputFiles E app fuel (entryPoints app) (logged st @ preamble E app)") simp
  show "fst (convert E app fuel st) = Some (Inr (Some (converter_convert E files (programs E app))))"
    using convert_proceed[OF e x] by simp
  show "converterCalls (snd (convert E app fuel st)) = converterCalls st @ [(files, programs E app)]"
    using convert_proceed[OF e x] by simp
qed

lemma convert_undefined_blocking:
  assumes "fst (convert E app fuel st) = Some (Inr None)"
  shows "\<exists>p \<in> set (programs E app). \<exists>d \<in> set (preEmitDiagnostics p). code d \<notin> set IGNORED_DIAGNOSTICS"
proof (rule ccontr)
  assume "\<not> ?thesis"
  then have e: "flatMap (programs E app) emitFunc = []"
    using errors_nonempty[of "programs E app"] by blast
  obtain r lg where x: "expandInputFiles E app fuel (entryPoints app) (logged st @ preamble E app) = (r, lg)"
    by (cases "expandInputFiles E app fuel (entryPoints app) (logged st @ preamble E app)") simp
  have "fst (convert E app fuel st) \<noteq> Some (Inr None)"
  proof (cases r)
    case None
    then show ?thesis using convert_proceed[OF e x] by simp
  next
    case (Some y)
    then show ?thesis using convert_proceed[OF e x] by (cases y) simp_all
  qed
  with assms show False by simp
qed

text \<open>
  C1. When some program has a pre-emit diagnostic whose code is not ignored,
  \<open>convert\<close> returns \<open>undefined\<close> and the converter is not called. When every
  diagnostic of every program is ignored, the conversion goes on: as soon as the
  entry points are expanded the converter is called, once, with the expanded files
  and the programs, and \<open>convert\<close> returns what it returns.
\<close>

theorem convert_blocking_diagnostics:
  "((\<exists>p \<in> set (programs E app). \<exists>d \<in> set (preEmitDiagnostics p). code d \<notin> set IGNORED_DIAGNOSTICS) \<longrightarrow>
      fst (convert E app fuel st) = Some (Inr None) \<and>
      converterCalls (snd (convert E app fuel st)) = converterCalls st)
   \<and> ((\<forall>p \<in> set (programs E app). \<forall>d \<in> set (preEmitDiagnostics p). code d \<in> set IGNORED_DIAGNOSTICS) \<longrightarrow>
      (\<forall>files. fst (expandInputFiles E app fuel (entryPoints app) (logged st @ preamble E app)) = Some (Inr files) \<longrightarrow>
         fst (convert E app fuel st) = Some (Inr (Some (converter_convert E files (programs E app)))) \<and>
         converterCalls (snd (convert E app fuel st)) = converterCalls st @ [(files, programs E app)]))"
proof (intro conjI impI allI)
  assume "\<exists>p \<in> set (programs E app). \<exists>d \<in> set (preEmitDiagnostics p). code d \<notin> set IGNORED_DIAGNOSTICS"
  then have ne: "flatMap (programs E app) emitFunc \<noteq> []" by (simp only: errors_nonempty)
  show "fst (convert E app fuel st) = Some (Inr None)"
    using ne by (simp add: convert_def Let_def)
  show "converterCalls (snd (convert E app fuel st)) = converterCalls st"
    using ne by (simp add: convert_def Let_def)
next
  fix files
  assume "\<forall>p \<in> set (programs E app). \<forall>d \<in> set (preEmitDiagnostics p). code d \<in> set IGNORED_DIAGNOSTICS"
  then have e: "flatMap (programs E app) emitFunc = []" using errors_nonempty[of "programs E app"] by blast
  assume x: "fst (expandInputFiles E app fuel (entryPoints app) (logged st @ preamble E app)) = Some (Inr files)"
  obtain lg where xl: "expandInputFiles E app fuel (entryPoints app) (logged st @ preamble E app) = (Some (Inr files), lg)"
    using x by (cases "expandInputFiles E app fuel (entryPoints app) (logged st @ preamble E app)") simp
  show "fst (convert E app fuel st) = Some (Inr (Some (converter_convert E files (programs E app))))"
    using e xl by (simp add: convert_def Let_def)
  show "converterCalls (snd (convert E app fuel st)) = converterCalls st @ [(files, programs E app)]"
    using e xl by (simp add: convert_def Let_def)
qed

lemma referencePrograms_map:
  "referencePrograms E refs = map (programOfReference E) (concat (map (\<lambda>r. case r of None \<Rightarrow> [] | Some x \<Rightarrow> [x]) refs))"
  by (induction E refs rule: referencePrograms.induct) simp_all

lemma referencePrograms_length:
  "length (referencePrograms E refs) = length (filter (\<lambda>r. r \<noteq> None) refs)"
  by (induction E refs rule: referencePrograms.induct) simp_all

lemma convert_calls:
  "converterCalls (snd (convert E app fuel st)) = converterCalls st \<or>
   (\<exists>files. converterCalls (snd (convert E app fuel st)) = converterCalls st @ [(files, programs E app)])"
  by (simp add: convert_def Let_def split: prod.splits option.splits sum.splits)


text \<open>
  C3. When the primary program has no root file, the programs are the primary one
  followed by one program for each resolved reference, in order (an \<open>undefined\<close>
  entry of the resolved references, a reference that did not resolve, has none);
  otherwise the primary program is the only one. These programs are what the
  converter receives: when every diagnostic is ignored and the entry points expand
  to \<open>files\<close>, \<open>convert\<close> calls the converter once, with \<open>files\<close> and these programs;
  and there is no run in which the converter is called with another list.
\<close>

theorem convert_solution_style_programs:
  "(rootFileNames (primaryProgram E app) = [] \<longrightarrow>
      programs E app =
        primaryProgram E app #
        map (programOfReference E)
          (concat (map (\<lambda>r. case r of None \<Rightarrow> [] | Some ref \<Rightarrow> [ref])
             (case resolvedProjectReferences (primaryProgram E app) of None \<Rightarrow> [] | Some rs \<Rightarrow> rs))) \<and>
      length (programs E app) =
        1 + length (filter (\<lambda>r. r \<noteq> None)
             (case resolvedProjectReferences (primaryProgram E app) of None \<Rightarrow> [] | Some rs \<Rightarrow> rs)))
   \<and> (rootFileNames (primaryProgram E app) \<noteq> [] \<longrightarrow> programs E app = [primaryProgram E app])
   \<and> ((\<forall>p \<in> set (programs E app). \<forall>d \<in> set (preEmitDiagnostics p). code d \<in> set IGNORED_DIAGNOSTICS) \<and>
        fst (expandInputFiles E app fuel (entryPoints app) (logged st @ preamble E app)) = Some (Inr files) \<longrightarrow>
        converterCalls (snd (convert E app fuel st)) = converterCalls st @ [(files, programs E app)])
   \<and> (converterCalls (snd (convert E app fuel st)) = converterCalls st \<or>
        (\<exists>files. converterCalls (snd (convert E app fuel st)) = converterCalls st @ [(files, programs E app)]))"
proof (intro conjI impI)
  assume "rootFileNames (primaryProgram E app) = []"
  then have p: "programs E app =
      primaryProgram E app #
      referencePrograms E (case resolvedProjectReferences (primaryProgram E app) of None \<Rightarrow> [] | Some rs \<Rightarrow> rs)"
    by (simp add: programs_def isSolutionStyle_def)
  show "programs E app =
        primaryProgram E app #
        map (programOfReference E)
          (concat (map (\<lambda>r. case r of None \<Rightarrow> [] | Some ref \<Rightarrow> [ref])
             (case resolvedProjectReferences (primaryProgram E app) of None \<Rightarrow> [] | Some rs \<Rightarrow> rs)))"
    by (simp only: p referencePrograms_map)
  show "length (programs E app) =
        1 + length (filter (\<lambda>r. r \<noteq> None)
             (case resolvedProjectReferences (primaryProgram E app) of None \<Rightarrow> [] | Some rs \<Rightarrow> rs))"
    by (simp add: p referencePrograms_length)
next
  assume "rootFileNames (primaryProgram E app) \<noteq> []"
  then show "programs E app = [primaryProgram E app]"
    by (simp add: programs_def isSolutionStyle_def)
next
  assume "(\<forall>p \<in> set (programs E app). \<forall>d \<in> set (preEmitDiagnostics p). code d \<in> set IGNORED_DIAGNOSTICS) \<and>
        fst (expandInputFiles E app fuel (entryPoints app) (logged st @ preamble E app)) = Some (Inr files)"
  then show "converterCalls (snd (convert E app fuel st)) = converterCalls st @ [(files, programs E app)]"
    using convert_runs_converter(2)[of E app fuel st files] by blast
next
  show "converterCalls (snd (convert E app fuel st)) = converterCalls st \<or>
        (\<exists>files. converterCalls (snd (convert E app fuel st)) = converterCalls st @ [(files, programs E app)])"
    by (rule convert_calls)
qed


text \<open>Nothing but the warning depends on the declared peer dependency.\<close>

lemma add_supported_versions:
  "add (E\<lparr>peerDependencies_typescript := v\<rparr>) app n pth ep acc = add E app n pth ep acc"
proof (induction n arbitrary: pth ep acc)
  case 0 show ?case by simp
next
  case (Suc n)
  have ih: "add (E\<lparr>peerDependencies_typescript := v\<rparr>) app n p e = add E app n p e" for p e
    by (rule ext) (rule Suc)
  show ?case by (simp add: ih isExcluded_def Let_def split: option.splits)
qed

lemma forEach_inputFiles_supported_versions:
  "fst (forEach_inputFiles (E\<lparr>peerDependencies_typescript := v\<rparr>) app n inputs acc lg) =
   fst (forEach_inputFiles E app n inputs acc lg')"
proof (induction inputs arbitrary: acc lg lg')
  case Nil show ?case by simp
next
  case (Cons f rest)
  show ?case
    using Cons.IH
    by (simp add: Let_def add_supported_versions split: option.splits sum.splits)
qed

lemma programs_supported_versions:
  "programs (E\<lparr>peerDependencies_typescript := v\<rparr>) app = programs E app"
proof -
  have r: "referencePrograms (E\<lparr>peerDependencies_typescript := v\<rparr>) refs = referencePrograms E refs" for refs
    by (simp add: referencePrograms_map programOfReference_def)
  show ?thesis
    by (simp add: programs_def isSolutionStyle_def primaryProgram_def r)
qed


text \<open>
  C9. When the running version is not among the supported ones, the warning is logged
  right after the first message, and the conversion goes on: if every diagnostic is
  ignored and the entry points expand to \<open>files\<close>, the converter is called with them
  and \<open>convert\<close> returns its result. Whenever \<open>convert\<close> returns \<open>undefined\<close>, some
  program has a diagnostic that is not ignored; and the outcome and the calls to the
  converter are the same whatever the declared peer dependency is.
\<close>

theorem convert_unsupported_version:
  "fst (convert (E\<lparr>peerDependencies_typescript := v\<rparr>) app fuel st) = fst (convert E app fuel st)
   \<and> converterCalls (snd (convert (E\<lparr>peerDependencies_typescript := v\<rparr>) app fuel st)) =
       converterCalls (snd (convert E app fuel st))
   \<and> (ts_versionMajorMinor E \<notin> set (supportedVersionMajorMinor E) \<longrightarrow>
        (\<exists>rest. logged (snd (convert E app fuel st)) =
           logged st @
           [Verbose (units ''Using TypeScript %s from %s'') [ts_version E, typeScriptPath E], unsupportedVersion E] @
           rest))
   \<and> (ts_versionMajorMinor E \<notin> set (supportedVersionMajorMinor E) \<and>
        (\<forall>p \<in> set (programs E app). \<forall>d \<in> set (preEmitDiagnostics p). code d \<in> set IGNORED_DIAGNOSTICS) \<and>
        fst (expandInputFiles E app fuel (entryPoints app) (logged st @ preamble E app)) = Some (Inr files) \<longrightarrow>
        fst (convert E app fuel st) = Some (Inr (Some (converter_convert E files (programs E app)))) \<and>
        converterCalls (snd (convert E app fuel st)) = converterCalls st @ [(files, programs E app)])
   \<and> (fst (convert E app fuel st) = Some (Inr None) \<longrightarrow>
        (\<exists>p \<in> set (programs E app). \<exists>d \<in> set (preEmitDiagnostics p). code d \<notin> set IGNORED_DIAGNOSTICS))"
proof -
  let ?E' = "E\<lparr>peerDependencies_typescript := v\<rparr>"
  have pr: "programs ?E' app = programs E app" by (rule programs_supported_versions)
  have same: "fst (convert ?E' app fuel st) = fst (convert E app fuel st) \<and>
              converterCalls (snd (convert ?E' app fuel st)) = converterCalls (snd (convert E app fuel st))"
  proof (cases "flatMap (programs E app) emitFunc = []")
    case False
    then show ?thesis using pr by (simp add: convert_abort)
  next
    case True
    obtain r lg where x: "expandInputFiles E app fuel (entryPoints app) (logged st @ preamble E app) = (r, lg)"
      by (cases "expandInputFiles E app fuel (entryPoints app) (logged st @ preamble E app)") simp
    obtain r' lg' where x': "expandInputFiles ?E' app fuel (entryPoints app) (logged st @ preamble ?E' app) = (r', lg')"
      by (cases "expandInputFiles ?E' app fuel (entryPoints app) (logged st @ preamble ?E' app)") simp
    have "r' = r"
      using forEach_inputFiles_supported_versions[where E = E and v = v and app = app and n = fuel
          and inputs = "entryPoints app" and acc = "[]"
          and lg = "logged st @ preamble ?E' app" and lg' = "logged st @ preamble E app"] x x'
      by (simp add: expandInputFiles_def)
    moreover have "flatMap (programs ?E' app) emitFunc = []" using True pr by simp
    ultimately show ?thesis
      using convert_proceed[OF True x] convert_proceed[OF _ x'] pr
      by (simp split: option.splits sum.splits)
  qed
  have warn: "\<exists>rest. logged (snd (convert E app fuel st)) =
           logged st @
           [Verbose (units ''Using TypeScript %s from %s'') [ts_version E, typeScriptPath E], unsupportedVersion E] @
           rest" if un: "ts_versionMajorMinor E \<notin> set (supportedVersionMajorMinor E)"
  proof -
    have nv: "\<not> versionSupported E" using un by (auto simp: versionSupported_def list_ex_iff)
    obtain more where pre: "preamble E app =
        [Verbose (units ''Using TypeScript %s from %s'') [ts_version E, typeScriptPath E], unsupportedVersion E] @ more"
      using nv by (simp add: preamble_def)
    show ?thesis
    proof (cases "flatMap (programs E app) emitFunc = []")
      case False
      then show ?thesis by (simp add: convert_abort pre)
    next
      case True
      obtain r lg where x: "expandInputFiles E app fuel (entryPoints app) (logged st @ preamble E app) = (r, lg)"
        by (cases "expandInputFiles E app fuel (entryPoints app) (logged st @ preamble E app)") simp
      obtain ws where "lg = (logged st @ preamble E app) @ ws"
        using forEach_inputFiles_log[of E app fuel "entryPoints app" "[]" "logged st @ preamble E app"] x
        by (auto simp: expandInputFiles_def)
      then show ?thesis
        using convert_proceed[OF True x] by (simp add: pre)
    qed
  qed
  have proceeds: "fst (convert E app fuel st) = Some (Inr (Some (converter_convert E files (programs E app)))) \<and>
        converterCalls (snd (convert E app fuel st)) = converterCalls st @ [(files, programs E app)]"
    if "\<forall>p \<in> set (programs E app). \<forall>d \<in> set (preEmitDiagnostics p). code d \<in> set IGNORED_DIAGNOSTICS"
      and "fst (expandInputFiles E app fuel (entryPoints app) (logged st @ preamble E app)) = Some (Inr files)"
    using convert_runs_converter[OF that] by simp
  have undefined: "\<exists>p \<in> set (programs E app). \<exists>d \<in> set (preEmitDiagnostics p). code d \<notin> set IGNORED_DIAGNOSTICS"
    if "fst (convert E app fuel st) = Some (Inr None)"
    using that by (rule convert_undefined_blocking)
  show ?thesis
  proof (intro conjI impI)
    show "fst (convert ?E' app fuel st) = fst (convert E app fuel st)" using same by simp
    show "converterCalls (snd (convert ?E' app fuel st)) = converterCalls (snd (convert E app fuel st))"
      using same by simp
  next
    assume "ts_versionMajorMinor E \<notin> set (supportedVersionMajorMinor E)"
    then show "\<exists>rest. logged (snd (convert E app fuel st)) =
           logged st @
           [Verbose (units ''Using TypeScript %s from %s'') [ts_version E, typeScriptPath E], unsupportedVersion E] @
           rest"
      by (rule warn)
  next
    assume a: "ts_versionMajorMinor E \<notin> set (supportedVersionMajorMinor E) \<and>
        (\<forall>p \<in> set (programs E app). \<forall>d \<in> set (preEmitDiagnostics p). code d \<in> set IGNORED_DIAGNOSTICS) \<and>
        fst (expandInputFiles E app fuel (entryPoints app) (logged st @ preamble E app)) = Some (Inr files)"
    show "fst (convert E app fuel st) = Some (Inr (Some (converter_convert E files (programs E app))))"
      using proceeds a by blast
    show "converterCalls (snd (convert E app fuel st)) = converterCalls st @ [(files, programs E app)]"
      using proceeds a by blast
  next
    assume "fst (convert E app fuel st) = Some (Inr None)"
    then show "\<exists>p \<in> set (programs E app). \<exists>d \<in> set (preEmitDiagnostics p). code d \<notin> set IGNORED_DIAGNOSTICS"
      by (rule undefined)
  qed
qed


section \<open>Properties of generateJson\<close>

text \<open>
  C7. One call of \<open>generateJson\<close> makes the serializer trigger \<open>begin\<close> once, run one
  export pass and trigger \<open>end\<close> once, in this order; both events carry the same
  metadata, the directory and the file name of the resolved target path. What is
  written is the export of the project alone.
\<close>

theorem generateJson_lifecycle:
  "serializeEvents (snd (generateJson E project out st)) =
     serializeEvents st @
     [EVENT_BEGIN project
        (Some \<lparr>outputDirectory = path_dirname E (path_resolve E out),
               outputFile = path_basename E (path_resolve E out)\<rparr>),
      ExportPass project,
      EVENT_END project
        (Some \<lparr>outputDirectory = path_dirname E (path_resolve E out),
               outputFile = path_basename E (path_resolve E out)\<rparr>)]
   \<and> (writeFile E (path_resolve E out) (JSON_stringify E (serializer_toObject E project)) \<longrightarrow>
        fst (generateJson E project out st) = Inr () \<and>
        written (snd (generateJson E project out st)) =
          written st @ [(path_resolve E out, JSON_stringify E (serializer_toObject E project))])"
  by (simp add: generateJson_def projectToObject_def Let_def)


section \<open>Properties of DeclarationReflection\<close>

text \<open>
  C10. In a well-formed store that holds the signature array of the reflection,
  \<open>getAllSignatures\<close> returns a new array with the call signatures in their stored
  order, then the index, the get and the set signature, each one that is present
  once; every array the store held before, that of the reflection among them, is
  unchanged.
\<close>

theorem getAllSignatures_concatenation:
  assumes "storeOk h" and "holdsSignatures h sigs this"
  shows "cells (snd (getAllSignatures sigs this h)) (fst (getAllSignatures sigs this h)) =
           Some ((case signatures this of None \<Rightarrow> [] | Some xs \<Rightarrow> xs) @
                 (case indexSignature this of None \<Rightarrow> [] | Some x \<Rightarrow> [x]) @
                 (case getSignature this of None \<Rightarrow> [] | Some x \<Rightarrow> [x]) @
                 (case setSignature this of None \<Rightarrow> [] | Some x \<Rightarrow> [x]))
         \<and> cells h (fst (getAllSignatures sigs this h)) = None
         \<and> (\<forall>a. cells h a \<noteq> None \<longrightarrow> cells (snd (getAllSignatures sigs this h)) a = cells h a)
         \<and> holdsSignatures (snd (getAllSignatures sigs this h)) sigs this"
proof -
  show ?thesis
    using assms
    apply (cases sigs; cases "indexSignature this"; cases "getSignature this"; cases "setSignature this")
    apply (auto simp: getAllSignatures_def newArray_def array_concat_def array_push_def elements_def
        holdsSignatures_def storeOk_def Let_def split: option.splits)
    done
qed


text \<open>A loop over one field visits the elements of the field, in order, under one role.\<close>

lemma fold_visits:
  "fold (\<lambda>x. callback (g x) p) xs s = fold (\<lambda>(r, q). callback r q) (map (\<lambda>x. (g x, p)) xs) s"
  by (induction xs arbitrary: s) simp_all


text \<open>
  C6. \<open>traverse\<close> calls the visitor once for each structural child with its role: the
  type parameters, then the declaration of an inline type literal, then the call
  signatures, then the index, the get and the set signature; the traversal of the
  container runs after them, on the state they leave.
\<close>

theorem traverse_structural_children:
  "traverse super callback this s =
     super callback this
       (fold (\<lambda>(r, p). callback r p)
          ((case typeParameters this of None \<Rightarrow> [] | Some ps \<Rightarrow> map (\<lambda>x. (TypeParameterR x, TypeParameter)) ps) @
           (case type' this of Some (ReflectionType d) \<Rightarrow> [(DeclarationR d, TypeLiteral)] | _ \<Rightarrow> []) @
           (case signatures this of None \<Rightarrow> [] | Some sigs \<Rightarrow> map (\<lambda>x. (SignatureR x, Signatures)) sigs) @
           (case indexSignature this of None \<Rightarrow> [] | Some x \<Rightarrow> [(SignatureR x, IndexSignature)]) @
           (case getSignature this of None \<Rightarrow> [] | Some x \<Rightarrow> [(SignatureR x, GetSignature)]) @
           (case setSignature this of None \<Rightarrow> [] | Some x \<Rightarrow> [(SignatureR x, SetSignature)]))
          s)"
proof -
  have tp: "(case typeParameters this of
               Some ps \<Rightarrow> fold (\<lambda>parameter. callback (TypeParameterR parameter) TypeParameter) ps s0
             | None \<Rightarrow> s0) =
            fold (\<lambda>(r, p). callback r p)
              (case typeParameters this of None \<Rightarrow> [] | Some ps \<Rightarrow> map (\<lambda>x. (TypeParameterR x, TypeParameter)) ps) s0" for s0
    by (cases "typeParameters this") (simp_all add: fold_visits)
  have ty: "(case type' this of
               Some (ReflectionType d) \<Rightarrow> callback (DeclarationR d) TypeLiteral s1
             | _ \<Rightarrow> s1) =
            fold (\<lambda>(r, p). callback r p)
              (case type' this of Some (ReflectionType d) \<Rightarrow> [(DeclarationR d, TypeLiteral)] | _ \<Rightarrow> []) s1" for s1
    by (simp split: option.splits Type.splits)
  have sg: "(case signatures this of
               Some sigs \<Rightarrow> fold (\<lambda>signature. callback (SignatureR signature) Signatures) sigs s2
             | None \<Rightarrow> s2) =
            fold (\<lambda>(r, p). callback r p)
              (case signatures this of None \<Rightarrow> [] | Some sigs \<Rightarrow> map (\<lambda>x. (SignatureR x, Signatures)) sigs) s2" for s2
    by (cases "signatures this") (simp_all add: fold_visits)
  have one: "(case x of Some y \<Rightarrow> callback (SignatureR y) p s3 | None \<Rightarrow> s3) =
            fold (\<lambda>(r, p). callback r p) (case x of None \<Rightarrow> [] | Some y \<Rightarrow> [(SignatureR y, p)]) s3" for x p s3
    by (cases x) simp_all
  show ?thesis
    unfolding traverse_def Let_def
    by (simp only: tp ty sg one fold_append comp_apply)
qed


text \<open>Reading a key of the object after a guarded assignment.\<close>

lemma map_of_ifTruthy_other:
  "key \<noteq> k \<Longrightarrow> map_of (ifTruthy t x (\<lambda>v. AList.update k (f v)) r) key = map_of r key"
  by (cases x) (simp_all add: ifTruthy_def update_conv')

lemma map_of_ifTruthy_same:
  "map_of (ifTruthy t x (\<lambda>v. AList.update k (f v)) r) k =
     (case x of None \<Rightarrow> map_of r k | Some v \<Rightarrow> if t v then Some (f v) else map_of r k)"
  by (cases x) (simp_all add: ifTruthy_def update_conv')

lemma map_of_ifTruthy_object:
  "map_of (ifTruthy object x (\<lambda>v. AList.update k (f v)) r) k =
     (case x of None \<Rightarrow> map_of r k | Some v \<Rightarrow> Some (f v))"
  by (cases x) (simp_all add: ifTruthy_def object_def update_conv')

lemma map_of_ifTruthy_string:
  "map_of (ifTruthy nonEmptyString x (\<lambda>v. AList.update k (f v)) r) k =
     (case x of None \<Rightarrow> map_of r k | Some v \<Rightarrow> if v \<noteq> [] then Some (f v) else map_of r k)"
  by (cases x) (simp_all add: ifTruthy_def nonEmptyString_def update_conv')


text \<open>
  C2, as amended. \<open>toObject\<close> gives each of the nine optional fields its serialized
  value exactly when the field is set and truthy: a field that is \<open>undefined\<close>, and a
  default value that is the empty string, add nothing to the record of the base
  class; a list that is set is written even when it is empty.
\<close>

theorem toObject_optional_fields:
  "map_of (toObject super T this) ''type'' =
     (case type' this of None \<Rightarrow> map_of (super this) ''type'' | Some t \<Rightarrow> Some (T t))
   \<and> map_of (toObject super T this) ''defaultValue'' =
     (case defaultValue this of
        None \<Rightarrow> map_of (super this) ''defaultValue''
      | Some v \<Rightarrow> if v \<noteq> [] then Some (JString v) else map_of (super this) ''defaultValue'')
   \<and> map_of (toObject super T this) ''overwrites'' =
     (case overwrites this of None \<Rightarrow> map_of (super this) ''overwrites'' | Some t \<Rightarrow> Some (T t))
   \<and> map_of (toObject super T this) ''inheritedFrom'' =
     (case inheritedFrom this of None \<Rightarrow> map_of (super this) ''inheritedFrom'' | Some t \<Rightarrow> Some (T t))
   \<and> map_of (toObject super T this) ''extendedTypes'' =
     (case extendedTypes this of
        None \<Rightarrow> map_of (super this) ''extendedTypes'' | Some ts \<Rightarrow> Some (JArray (map T ts)))
   \<and> map_of (toObject super T this) ''extendedBy'' =
     (case extendedBy this of
        None \<Rightarrow> map_of (super this) ''extendedBy'' | Some ts \<Rightarrow> Some (JArray (map T ts)))
   \<and> map_of (toObject super T this) ''implementedTypes'' =
     (case implementedTypes this of
        None \<Rightarrow> map_of (super this) ''implementedTypes'' | Some ts \<Rightarrow> Some (JArray (map T ts)))
   \<and> map_of (toObject super T this) ''implementedBy'' =
     (case implementedBy this of
        None \<Rightarrow> map_of (super this) ''implementedBy'' | Some ts \<Rightarrow> Some (JArray (map T ts)))
   \<and> map_of (toObject super T this) ''implementationOf'' =
     (case implementationOf this of None \<Rightarrow> map_of (super this) ''implementationOf'' | Some t \<Rightarrow> Some (T t))"
proof (intro conjI)
  show "map_of (toObject super T this) ''type'' =
     (case type' this of None \<Rightarrow> map_of (super this) ''type'' | Some t \<Rightarrow> Some (T t))"
    unfolding toObject_def Let_def
    by (simp add: map_of_ifTruthy_other map_of_ifTruthy_object cong: option.case_cong)
  show "map_of (toObject super T this) ''defaultValue'' =
     (case defaultValue this of
        None \<Rightarrow> map_of (super this) ''defaultValue''
      | Some v \<Rightarrow> if v \<noteq> [] then Some (JString v) else map_of (super this) ''defaultValue'')"
    unfolding toObject_def Let_def
    by (simp add: map_of_ifTruthy_other map_of_ifTruthy_string cong: option.case_cong if_cong)
  show "map_of (toObject super T this) ''overwrites'' =
     (case overwrites this of None \<Rightarrow> map_of (super this) ''overwrites'' | Some t \<Rightarrow> Some (T t))"
    unfolding toObject_def Let_def
    by (simp add: map_of_ifTruthy_other map_of_ifTruthy_object cong: option.case_cong)
  show "map_of (toObject super T this) ''inheritedFrom'' =
     (case inheritedFrom this of None \<Rightarrow> map_of (super this) ''inheritedFrom'' | Some t \<Rightarrow> Some (T t))"
    unfolding toObject_def Let_def
    by (simp add: map_of_ifTruthy_other map_of_ifTruthy_object cong: option.case_cong)
  show "map_of (toObject super T this) ''extendedTypes'' =
     (case extendedTypes this of
        None \<Rightarrow> map_of (super this) ''extendedTypes'' | Some ts \<Rightarrow> Some (JArray (map T ts)))"
    unfolding toObject_def Let_def
    by (simp add: map_of_ifTruthy_other map_of_ifTruthy_object cong: option.case_cong)
  show "map_of (toObject super T this) ''extendedBy'' =
     (case extendedBy this of
        None \<Rightarrow> map_of (super this) ''extendedBy'' | Some ts \<Rightarrow> Some (JArray (map T ts)))"
    unfolding toObject_def Let_def
    by (simp add: map_of_ifTruthy_other map_of_ifTruthy_object cong: option.case_cong)
  show "map_of (toObject super T this) ''implementedTypes'' =
     (case implementedTypes this of
        None \<Rightarrow> map_of (super this) ''implementedTypes'' | Some ts \<Rightarrow> Some (JArray (map T ts)))"
    unfolding toObject_def Let_def
    by (simp add: map_of_ifTruthy_other map_of_ifTruthy_object cong: option.case_cong)
  show "map_of (toObject super T this) ''implementedBy'' =
     (case implementedBy this of
        None \<Rightarrow> map_of (super this) ''implementedBy'' | Some ts \<Rightarrow> Some (JArray (map T ts)))"
    unfolding toObject_def Let_def
    by (simp add: map_of_ifTruthy_other map_of_ifTruthy_object cong: option.case_cong)
  show "map_of (toObject super T this) ''implementationOf'' =
     (case implementationOf this of None \<Rightarrow> map_of (super this) ''implementationOf'' | Some t \<Rightarrow> Some (T t))"
    unfolding toObject_def Let_def
    by (simp add: map_of_ifTruthy_other map_of_ifTruthy_object cong: option.case_cong)
qed


subsection \<open>The round trip through the serialized form\<close>













section \<open>The properties on the worked configuration\<close>

lemmas example_defs =
  exampleEnv_def exampleApp_def exampleStat_def exampleReaddir_def exampleCreateProgram_def

lemma example_add_src:
  "add exampleEnv exampleApp (Suc (Suc (Suc 0))) ''/src'' True acc =
     Some (Inr (acc @ [''/src/a.ts'', ''/src/sub/c.tsx'']))"
  by (simp add: example_defs withSlash_def endsWith_def isExcluded_def supportedFileRegex_def
      option_truthy_def Let_def)

lemma example_expand:
  "expandInputFiles exampleEnv exampleApp (Suc (Suc (Suc 0))) (entryPoints exampleApp) lg =
     (Some (Inr [''/src/a.ts'', ''/src/sub/c.tsx'']), lg @ [missingEntryPoint ''/missing.ts''])"
proof -
  have e: "entryPoints exampleApp = [''/missing.ts'', ''/src'']" by (simp add: exampleApp_def)
  have m: "\<not> existsSync exampleEnv ''/missing.ts''"
    by (simp add: example_defs)
  have s: "existsSync exampleEnv ''/src''"
    by (simp add: example_defs)
  have r: "path_resolve exampleEnv p = p" for p by (simp add: exampleEnv_def)
  show ?thesis
    unfolding expandInputFiles_def e
    by (simp add: m s r example_add_src Let_def del: add.simps)
qed

lemma example_programs:
  "programs exampleEnv exampleApp =
     [\<lparr>rootFileNames = [''/src/a.ts''], resolvedProjectReferences = None,
       preEmitDiagnostics = [\<lparr>code = 7016, messageText = ''No declaration file''\<rparr>]\<rparr>]"
  by (simp add: programs_def isSolutionStyle_def primaryProgram_def example_defs)

lemma example_programs_bad:
  "programs exampleEnv (exampleApp\<lparr>optFileNames := [''/src/bad.ts'']\<rparr>) =
     [\<lparr>rootFileNames = [''/src/bad.ts''], resolvedProjectReferences = None,
       preEmitDiagnostics = [\<lparr>code = 2322, messageText = ''Type mismatch''\<rparr>]\<rparr>]"
  by (simp add: programs_def isSolutionStyle_def primaryProgram_def example_defs)

text \<open>
  With \<open>/src/bad.ts\<close> as the root the type error stops the conversion before the
  converter is called; with \<open>/src/a.ts\<close> the only diagnostic is ignored and the
  converter receives the two expanded files and the one program.
\<close>

theorem convert_blocking_diagnostics_witness:
  "fst (convert exampleEnv (exampleApp\<lparr>optFileNames := [''/src/bad.ts'']\<rparr>) 0 exampleState) = Some (Inr None)
   \<and> converterCalls (snd (convert exampleEnv (exampleApp\<lparr>optFileNames := [''/src/bad.ts'']\<rparr>) 0 exampleState)) = []
   \<and> fst (convert exampleEnv exampleApp (Suc (Suc (Suc 0))) exampleState) = Some (Inr (Some 3))
   \<and> converterCalls (snd (convert exampleEnv exampleApp (Suc (Suc (Suc 0))) exampleState)) =
       [([''/src/a.ts'', ''/src/sub/c.tsx''], programs exampleEnv exampleApp)]"
proof -
  let ?bad = "exampleApp\<lparr>optFileNames := [''/src/bad.ts'']\<rparr>"
  have blocking: "\<exists>p \<in> set (programs exampleEnv ?bad). \<exists>d \<in> set (preEmitDiagnostics p).
                    code d \<notin> set IGNORED_DIAGNOSTICS"
    by (simp add: example_programs_bad IGNORED_DIAGNOSTICS_def)
  have ignored: "\<forall>p \<in> set (programs exampleEnv exampleApp). \<forall>d \<in> set (preEmitDiagnostics p).
                    code d \<in> set IGNORED_DIAGNOSTICS"
    by (simp add: example_programs IGNORED_DIAGNOSTICS_def)
  have files: "fst (expandInputFiles exampleEnv exampleApp (Suc (Suc (Suc 0))) (entryPoints exampleApp)
                 (logged exampleState @ preamble exampleEnv exampleApp)) =
               Some (Inr [''/src/a.ts'', ''/src/sub/c.tsx''])"
    by (simp add: example_expand)
  have result: "converter_convert exampleEnv [''/src/a.ts'', ''/src/sub/c.tsx''] (programs exampleEnv exampleApp) = 3"
    by (simp add: example_programs) (simp add: exampleEnv_def)
  have calls: "converterCalls exampleState = []" by (simp add: exampleState_def)
  from convert_blocking_diagnostics[of exampleEnv ?bad 0 exampleState] blocking calls
  have a: "fst (convert exampleEnv ?bad 0 exampleState) = Some (Inr None) \<and>
           converterCalls (snd (convert exampleEnv ?bad 0 exampleState)) = []"
    by simp
  from convert_blocking_diagnostics[of exampleEnv exampleApp "Suc (Suc (Suc 0))" exampleState] ignored files
  have b: "fst (convert exampleEnv exampleApp (Suc (Suc (Suc 0))) exampleState) =
             Some (Inr (Some (converter_convert exampleEnv [''/src/a.ts'', ''/src/sub/c.tsx'']
                                (programs exampleEnv exampleApp)))) \<and>
           converterCalls (snd (convert exampleEnv exampleApp (Suc (Suc (Suc 0))) exampleState)) =
             converterCalls exampleState @ [([''/src/a.ts'', ''/src/sub/c.tsx''], programs exampleEnv exampleApp)]"
    by simp
  from a b result calls show ?thesis by simp
qed

lemma example_expand_solution:
  "expandInputFiles exampleEnv (exampleApp\<lparr>optFileNames := []\<rparr>) (Suc (Suc (Suc 0)))
     (entryPoints exampleApp) lg =
     (Some (Inr [''/src/a.ts'', ''/src/sub/c.tsx'']), lg @ [missingEntryPoint ''/missing.ts''])"
proof -
  have e: "entryPoints exampleApp = [''/missing.ts'', ''/src'']"
    by (simp add: exampleApp_def)
  have m: "\<not> existsSync exampleEnv ''/missing.ts''"
    by (simp add: example_defs)
  have s: "existsSync exampleEnv ''/src''"
    by (simp add: example_defs)
  have r: "path_resolve exampleEnv p = p" for p by (simp add: exampleEnv_def)
  have a: "add exampleEnv (exampleApp\<lparr>optFileNames := []\<rparr>) (Suc (Suc (Suc 0))) ''/src'' True [] =
             Some (Inr [''/src/a.ts'', ''/src/sub/c.tsx''])"
    by (simp add: example_defs withSlash_def endsWith_def isExcluded_def supportedFileRegex_def
        option_truthy_def Let_def)
  show ?thesis
    unfolding expandInputFiles_def e
    by (simp add: m s r a Let_def del: add.simps)
qed

lemma example_programs_solution:
  "programs exampleEnv (exampleApp\<lparr>optFileNames := []\<rparr>) =
     [\<lparr>rootFileNames = [], resolvedProjectReferences = Some [Some exampleReference, None],
       preEmitDiagnostics = [\<lparr>code = 7016, messageText = ''No declaration file''\<rparr>]\<rparr>,
      \<lparr>rootFileNames = [''/pkg/index.ts''], resolvedProjectReferences = None,
       preEmitDiagnostics = [\<lparr>code = 7016, messageText = ''No declaration file''\<rparr>]\<rparr>]"
  by (simp add: programs_def isSolutionStyle_def primaryProgram_def programOfReference_def example_defs
      exampleReference_def)

text \<open>
  Without root files the primary program is followed by the program of the one
  resolved reference, and \<open>convert\<close> hands the converter these two programs with the
  two expanded files; with \<open>/src/a.ts\<close> as root the primary program stays alone.
\<close>

theorem convert_solution_style_programs_witness:
  "rootFileNames (primaryProgram exampleEnv (exampleApp\<lparr>optFileNames := []\<rparr>)) = []
   \<and> resolvedProjectReferences (primaryProgram exampleEnv (exampleApp\<lparr>optFileNames := []\<rparr>)) =
       Some [Some exampleReference, None]
   \<and> programs exampleEnv (exampleApp\<lparr>optFileNames := []\<rparr>) =
       [primaryProgram exampleEnv (exampleApp\<lparr>optFileNames := []\<rparr>),
        programOfReference exampleEnv exampleReference]
   \<and> length (programs exampleEnv (exampleApp\<lparr>optFileNames := []\<rparr>)) = 2
   \<and> converterCalls (snd (convert exampleEnv (exampleApp\<lparr>optFileNames := []\<rparr>) (Suc (Suc (Suc 0))) exampleState)) =
       [([''/src/a.ts'', ''/src/sub/c.tsx''],
         [primaryProgram exampleEnv (exampleApp\<lparr>optFileNames := []\<rparr>),
          programOfReference exampleEnv exampleReference])]
   \<and> rootFileNames (primaryProgram exampleEnv exampleApp) = [''/src/a.ts'']
   \<and> programs exampleEnv exampleApp = [primaryProgram exampleEnv exampleApp]"
proof -
  let ?sol = "exampleApp\<lparr>optFileNames := []\<rparr>"
  have roots: "rootFileNames (primaryProgram exampleEnv ?sol) = []"
    by (simp add: primaryProgram_def example_defs)
  have refs: "resolvedProjectReferences (primaryProgram exampleEnv ?sol) = Some [Some exampleReference, None]"
    by (simp add: primaryProgram_def example_defs)
  have roots': "rootFileNames (primaryProgram exampleEnv exampleApp) = [''/src/a.ts'']"
    by (simp add: primaryProgram_def example_defs)
  from convert_solution_style_programs[of exampleEnv ?sol 0 exampleState] roots
  have ab: "programs exampleEnv ?sol =
        primaryProgram exampleEnv ?sol #
        map (programOfReference exampleEnv)
          (concat (map (\<lambda>r. case r of None \<Rightarrow> [] | Some ref \<Rightarrow> [ref])
             (case resolvedProjectReferences (primaryProgram exampleEnv ?sol) of None \<Rightarrow> [] | Some rs \<Rightarrow> rs)))"
    and "length (programs exampleEnv ?sol) =
        1 + length (filter (\<lambda>r. r \<noteq> None)
             (case resolvedProjectReferences (primaryProgram exampleEnv ?sol) of None \<Rightarrow> [] | Some rs \<Rightarrow> rs))"
    by blast+
  then have a: "programs exampleEnv ?sol =
        [primaryProgram exampleEnv ?sol, programOfReference exampleEnv exampleReference]"
    and b: "length (programs exampleEnv ?sol) = 2"
    by (simp_all add: refs)
  have ignored: "\<forall>p \<in> set (programs exampleEnv ?sol). \<forall>d \<in> set (preEmitDiagnostics p).
                    code d \<in> set IGNORED_DIAGNOSTICS"
    by (simp add: example_programs_solution IGNORED_DIAGNOSTICS_def)
  have files: "fst (expandInputFiles exampleEnv ?sol (Suc (Suc (Suc 0))) (entryPoints ?sol)
                 (logged exampleState @ preamble exampleEnv ?sol)) =
               Some (Inr [''/src/a.ts'', ''/src/sub/c.tsx''])"
    by (simp add: example_expand_solution)
  have calls: "converterCalls exampleState = []" by (simp add: exampleState_def)
  from convert_solution_style_programs[where E = exampleEnv and app = ?sol and fuel = "Suc (Suc (Suc 0))"
      and st = exampleState and files = "[''/src/a.ts'', ''/src/sub/c.tsx'']"] ignored files
  have "converterCalls (snd (convert exampleEnv ?sol (Suc (Suc (Suc 0))) exampleState)) =
          converterCalls exampleState @ [([''/src/a.ts'', ''/src/sub/c.tsx''], programs exampleEnv ?sol)]"
    by blast
  then have run: "converterCalls (snd (convert exampleEnv ?sol (Suc (Suc (Suc 0))) exampleState)) =
       [([''/src/a.ts'', ''/src/sub/c.tsx''],
         [primaryProgram exampleEnv ?sol, programOfReference exampleEnv exampleReference])]"
    by (simp only: calls a append_Nil)
  have "rootFileNames (primaryProgram exampleEnv exampleApp) \<noteq> []"
    by (simp only: roots') simp
  with convert_solution_style_programs[of exampleEnv exampleApp 0 exampleState]
  have c: "programs exampleEnv exampleApp = [primaryProgram exampleEnv exampleApp]"
    by blast
  from roots refs a b run roots' c show ?thesis by (intro conjI)
qed

text \<open>The peer dependency of the example, and the replacement on some strings.\<close>

lemma stripVersion_examples:
  "stripVersion (units ''3.9.x '') = units ''3.9''" "stripVersion (units '' 4.0.x'') = units ''4.0''"
  "stripVersion (units ''4.1'') = units ''4.1''" "stripVersion (units ''.x'') = units ''.x''"
  "stripVersion (units '' .x'') = []" "stripVersion (units ''4.1.x'' @ [0xA0]) = units ''4.1''"
  "stripVersion ([0x2003] @ units ''4.1.x'' @ [0x3000, 0xFEFF]) = units ''4.1''"
  by (simp_all add: stripVersion_def isSpace_def endsWith_def units_def Let_def)

lemma example_supported_versions:
  "supportedVersionMajorMinor exampleEnv = [units ''3.9'', units ''4.0'']"
  by (simp add: supportedVersionMajorMinor_def exampleEnv_def stripVersion_def isSpace_def endsWith_def
      units_def Let_def)

text \<open>
  TypeScript 4.1 is not among the supported 3.9 and 4.0: the warning is logged, the
  converter is called all the same and \<open>convert\<close> returns its result, as it does when
  4.1 is supported.
\<close>

theorem convert_unsupported_version_witness:
  "ts_versionMajorMinor exampleEnv \<notin> set (supportedVersionMajorMinor exampleEnv)
   \<and> fst (convert exampleEnv exampleApp (Suc (Suc (Suc 0))) exampleState) = Some (Inr (Some 3))
   \<and> converterCalls (snd (convert exampleEnv exampleApp (Suc (Suc (Suc 0))) exampleState)) =
       [([''/src/a.ts'', ''/src/sub/c.tsx''], programs exampleEnv exampleApp)]
   \<and> fst (convert (exampleEnv\<lparr>peerDependencies_typescript := units ''4.1.x''\<rparr>) exampleApp
            (Suc (Suc (Suc 0))) exampleState) = Some (Inr (Some 3))
   \<and> (\<exists>rest. logged (snd (convert exampleEnv exampleApp (Suc (Suc (Suc 0))) exampleState)) =
         [Verbose (units ''Using TypeScript %s from %s'') [units ''4.1.3'', units ''/node_modules/typescript/lib''],
          Warn (units ''You are running with an unsupported TypeScript version! TypeDoc supports 3.9, 4.0'')] @
         rest)"
proof -
  let ?run = "convert exampleEnv exampleApp (Suc (Suc (Suc 0))) exampleState"
  have un: "ts_versionMajorMinor exampleEnv \<notin> set (supportedVersionMajorMinor exampleEnv)"
    by (simp add: example_supported_versions) (simp add: exampleEnv_def units_def)
  have w: "unsupportedVersion exampleEnv =
           Warn (units ''You are running with an unsupported TypeScript version! TypeDoc supports 3.9, 4.0'')"
    by (simp add: unsupportedVersion_def example_supported_versions units_def)
  have v: "ts_version exampleEnv = units ''4.1.3''"
    "typeScriptPath exampleEnv = units ''/node_modules/typescript/lib''"
    "logged exampleState = []" "converterCalls exampleState = []"
    by (simp_all add: exampleEnv_def exampleState_def)
  have ignored: "\<forall>p \<in> set (programs exampleEnv exampleApp). \<forall>d \<in> set (preEmitDiagnostics p).
                    code d \<in> set IGNORED_DIAGNOSTICS"
    by (simp add: example_programs IGNORED_DIAGNOSTICS_def)
  have files: "fst (expandInputFiles exampleEnv exampleApp (Suc (Suc (Suc 0))) (entryPoints exampleApp)
                 (logged exampleState @ preamble exampleEnv exampleApp)) =
               Some (Inr [''/src/a.ts'', ''/src/sub/c.tsx''])"
    by (simp add: example_expand)
  have result: "converter_convert exampleEnv [''/src/a.ts'', ''/src/sub/c.tsx''] (programs exampleEnv exampleApp) = 3"
    by (simp add: example_programs) (simp add: exampleEnv_def)
  note t = convert_unsupported_version[where E = exampleEnv and v = "units ''4.1.x''" and app = exampleApp
      and fuel = "Suc (Suc (Suc 0))" and st = exampleState and files = "[''/src/a.ts'', ''/src/sub/c.tsx'']"]
  from t un ignored files
  have p: "fst ?run = Some (Inr (Some (converter_convert exampleEnv [''/src/a.ts'', ''/src/sub/c.tsx'']
                                         (programs exampleEnv exampleApp))))"
    and c: "converterCalls (snd ?run) =
            converterCalls exampleState @ [([''/src/a.ts'', ''/src/sub/c.tsx''], programs exampleEnv exampleApp)]"
    by blast+
  from t have s: "fst (convert (exampleEnv\<lparr>peerDependencies_typescript := units ''4.1.x''\<rparr>) exampleApp
                        (Suc (Suc (Suc 0))) exampleState) = fst ?run"
    by blast
  from t un have l: "\<exists>rest. logged (snd ?run) =
           logged exampleState @
           [Verbose (units ''Using TypeScript %s from %s'') [ts_version exampleEnv, typeScriptPath exampleEnv],
            unsupportedVersion exampleEnv] @ rest"
    by blast
  have p': "fst ?run = Some (Inr (Some 3))" using p by (simp only: result)
  have c': "converterCalls (snd ?run) = [([''/src/a.ts'', ''/src/sub/c.tsx''], programs exampleEnv exampleApp)]"
    using c by (simp only: v append_Nil)
  have s': "fst (convert (exampleEnv\<lparr>peerDependencies_typescript := units ''4.1.x''\<rparr>) exampleApp
                        (Suc (Suc (Suc 0))) exampleState) = Some (Inr (Some 3))"
    using s p' by simp
  have l': "\<exists>rest. logged (snd ?run) =
         [Verbose (units ''Using TypeScript %s from %s'') [units ''4.1.3'', units ''/node_modules/typescript/lib''],
          Warn (units ''You are running with an unsupported TypeScript version! TypeDoc supports 3.9, 4.0'')] @
         rest"
    using l by (simp only: w v append_Nil)
  from un p' c' s' l' show ?thesis by (intro conjI)
qed


text \<open>
  The entry point \<open>/src\<close> matches the pattern \<open>/src/\<close> and is expanded all the same,
  while \<open>/src/b.ts\<close>, found in its listing, is dropped by the pattern \<open>/src/b.ts\<close>;
  supplied as an entry point, \<open>/src/b.ts\<close> is kept, also when the directory \<open>/src\<close>
  follows it in the list and is then expanded.
\<close>

theorem expandInputFiles_exclude_entry_points_witness:
  "isExcluded exampleEnv exampleApp (normalizePath exampleEnv (withSlash \<lparr>isDirectory = True\<rparr> ''/src''))
   \<and> expandInputFiles exampleEnv exampleApp (Suc (Suc (Suc 0))) [''/src''] [] =
       (Some (Inr [''/src/a.ts'', ''/src/sub/c.tsx'']), [])
   \<and> isExcluded exampleEnv exampleApp (normalizePath exampleEnv ''/src/b.ts'')
   \<and> add exampleEnv exampleApp (Suc 0) ''/src/b.ts'' False [''/src/a.ts''] = Some (Inr [''/src/a.ts''])
   \<and> add exampleEnv exampleApp (Suc 0) ''/src/b.ts'' True [''/src/a.ts''] = Some (Inr [''/src/a.ts'', ''/src/b.ts''])
   \<and> fst (expandInputFiles exampleEnv exampleApp (Suc 0) [''/src/b.ts'', ''/src/notes.md'', ''/src/a.ts''] []) =
       Some (Inr [''/src/b.ts'', ''/src/a.ts''])
   \<and> forEach_inputFiles exampleEnv exampleApp (Suc (Suc (Suc 0))) [''/src/b.ts'', ''/src''] [] [] =
       (Some (Inr [''/src/b.ts'', ''/src/a.ts'', ''/src/sub/c.tsx'']), [])"
proof -
  let ?dir = "\<lparr>isDirectory = True\<rparr>"
  let ?file = "\<lparr>isDirectory = False\<rparr>"
  let ?names = "[''a.ts'', ''b.ts'', ''notes.md'', ''sub'']"
  have ex: "existsSync exampleEnv (path_resolve exampleEnv ''/src'')"
    by (simp add: example_defs)
  have res: "path_resolve exampleEnv ''/src'' = ''/src''" by (simp add: exampleEnv_def)
  have slash: "withSlash ?dir ''/src'' = ''/src/''" "withSlash ?file ''/src/b.ts'' = ''/src/b.ts''"
    by (simp_all add: withSlash_def endsWith_def)
  have st: "statSync exampleEnv ''/src'' = Some ?dir" "statSync exampleEnv ''/src/b.ts'' = Some ?file"
    by (simp_all add: example_defs)
  have rd: "readdirSync exampleEnv (withSlash ?dir ''/src'') = Some ?names"
    by (simp add: slash example_defs)
  have exd: "isExcluded exampleEnv exampleApp (normalizePath exampleEnv (withSlash ?dir ''/src''))"
    by (simp add: slash isExcluded_def example_defs)
  have exb: "isExcluded exampleEnv exampleApp (normalizePath exampleEnv ''/src/b.ts'')"
    by (simp add: isExcluded_def example_defs)
  have sup: "supportedFileRegex exampleApp ''/src/b.ts''"
    by (simp add: supportedFileRegex_def option_truthy_def endsWith_def exampleApp_def)
  have nb: "normalizePath exampleEnv ''/src/b.ts'' = ''/src/b.ts''" by (simp add: exampleEnv_def)
  have listing: "forEachM (\<lambda>next. add exampleEnv exampleApp (Suc (Suc 0))
                     (path_join exampleEnv (withSlash ?dir ''/src'') next) False) ?names [] =
                 Some (Inr [''/src/a.ts'', ''/src/sub/c.tsx''])"
    by (simp add: slash example_defs withSlash_def endsWith_def isExcluded_def supportedFileRegex_def
        option_truthy_def Let_def)
  from expandInputFiles_exclude_entry_points[where E = exampleEnv and app = exampleApp
      and n = "Suc (Suc (Suc 0))" and f = "''/src''" and lg = "[]"] ex
  have a: "expandInputFiles exampleEnv exampleApp (Suc (Suc (Suc 0))) [''/src''] [] =
           (add exampleEnv exampleApp (Suc (Suc (Suc 0))) (path_resolve exampleEnv ''/src'') True [], [])"
    by blast
  from expandInputFiles_exclude_entry_points[where E = exampleEnv and app = exampleApp
      and n = "Suc (Suc 0)" and pth = "''/src''" and stats = ?dir and names = ?names and acc = "[]"] st(1) rd
  have b: "add exampleEnv exampleApp (Suc (Suc (Suc 0))) ''/src'' True [] =
           forEachM (\<lambda>next. add exampleEnv exampleApp (Suc (Suc 0))
                     (path_join exampleEnv (withSlash ?dir ''/src'') next) False) ?names []"
    by simp
  from expandInputFiles_exclude_entry_points[where E = exampleEnv and app = exampleApp
      and n = 0 and pth = "''/src/b.ts''" and stats = ?file and acc = "[''/src/a.ts'']"] st(2) exb slash(2)
  have c: "add exampleEnv exampleApp (Suc 0) ''/src/b.ts'' False [''/src/a.ts''] = Some (Inr [''/src/a.ts''])"
    by simp
  from expandInputFiles_exclude_entry_points[where E = exampleEnv and app = exampleApp
      and n = 0 and pth = "''/src/b.ts''" and stats = ?file and acc = "[''/src/a.ts'']"] st(2) sup nb
  have d: "add exampleEnv exampleApp (Suc 0) ''/src/b.ts'' True [''/src/a.ts''] =
           Some (Inr [''/src/a.ts'', ''/src/b.ts''])"
    by simp
  from a b listing res have e: "expandInputFiles exampleEnv exampleApp (Suc (Suc (Suc 0))) [''/src''] [] =
       (Some (Inr [''/src/a.ts'', ''/src/sub/c.tsx'']), [])"
    by (simp only:)
  have plain: "\<forall>f \<in> set [''/src/b.ts'', ''/src/notes.md'', ''/src/a.ts''].
                 existsSync exampleEnv (path_resolve exampleEnv f) \<longrightarrow>
                 (\<exists>stats. statSync exampleEnv (path_resolve exampleEnv f) = Some stats \<and> \<not> isDirectory stats)"
    by (simp add: example_defs)
  have kept: "map (normalizePath exampleEnv)
                (filter (supportedFileRegex exampleApp)
                   (map (path_resolve exampleEnv)
                      (filter (\<lambda>f. existsSync exampleEnv (path_resolve exampleEnv f))
                         [''/src/b.ts'', ''/src/notes.md'', ''/src/a.ts'']))) =
              [''/src/b.ts'', ''/src/a.ts'']"
    by (simp add: example_defs supportedFileRegex_def option_truthy_def endsWith_def)
  from expandInputFiles_exclude_entry_points[where E = exampleEnv and app = exampleApp
      and n = 0 and inputFiles = "[''/src/b.ts'', ''/src/notes.md'', ''/src/a.ts'']" and lg = "[]"] plain
  have "fst (expandInputFiles exampleEnv exampleApp (Suc 0) [''/src/b.ts'', ''/src/notes.md'', ''/src/a.ts''] []) =
          Some (Inr (map (normalizePath exampleEnv)
                (filter (supportedFileRegex exampleApp)
                   (map (path_resolve exampleEnv)
                      (filter (\<lambda>f. existsSync exampleEnv (path_resolve exampleEnv f))
                         [''/src/b.ts'', ''/src/notes.md'', ''/src/a.ts''])))))"
    by blast
  then have g: "fst (expandInputFiles exampleEnv exampleApp (Suc 0)
                  [''/src/b.ts'', ''/src/notes.md'', ''/src/a.ts''] []) =
                Some (Inr [''/src/b.ts'', ''/src/a.ts''])"
    by (simp only: kept)
  have exb': "existsSync exampleEnv (path_resolve exampleEnv ''/src/b.ts'')"
    by (simp add: example_defs)
  have hd: "add exampleEnv exampleApp (Suc (Suc (Suc 0))) (path_resolve exampleEnv ''/src/b.ts'') True [] =
            Some (Inr [''/src/b.ts''])"
    by (simp add: example_defs withSlash_def endsWith_def supportedFileRegex_def option_truthy_def Let_def)
  have tl: "forEach_inputFiles exampleEnv exampleApp (Suc (Suc (Suc 0))) [''/src''] [''/src/b.ts''] [] =
            (Some (Inr [''/src/b.ts'', ''/src/a.ts'', ''/src/sub/c.tsx'']), [])"
    by (simp add: example_defs withSlash_def endsWith_def isExcluded_def supportedFileRegex_def
        option_truthy_def Let_def)
  from expandInputFiles_exclude_entry_points[where E = exampleEnv and app = exampleApp
      and n = "Suc (Suc (Suc 0))" and f = "''/src/b.ts''" and rest = "[''/src'']" and found = "[]"
      and lg = "[]"] exb'
  have "forEach_inputFiles exampleEnv exampleApp (Suc (Suc (Suc 0))) [''/src/b.ts'', ''/src''] [] [] =
          (case add exampleEnv exampleApp (Suc (Suc (Suc 0))) (path_resolve exampleEnv ''/src/b.ts'') True [] of
             Some (Inr found') \<Rightarrow>
               forEach_inputFiles exampleEnv exampleApp (Suc (Suc (Suc 0))) [''/src''] found' []
           | r \<Rightarrow> (r, []))"
    by blast
  then have h: "forEach_inputFiles exampleEnv exampleApp (Suc (Suc (Suc 0))) [''/src/b.ts'', ''/src''] [] [] =
                (Some (Inr [''/src/b.ts'', ''/src/a.ts'', ''/src/sub/c.tsx'']), [])"
    by (simp only: hd tl option.case sum.case)
  from exd e exb c d g h show ?thesis by (intro conjI)
qed

text \<open>
  Writing project 7 to \<open>docs.json\<close>: three events, the same metadata at both ends.
\<close>

theorem generateJson_lifecycle_witness:
  "writeFile exampleEnv (path_resolve exampleEnv ''docs.json'')
     (JSON_stringify exampleEnv (serializer_toObject exampleEnv 7))
   \<and> serializeEvents (snd (generateJson exampleEnv 7 ''docs.json'' exampleState)) =
       [EVENT_BEGIN 7 (Some \<lparr>outputDirectory = ''/out'', outputFile = ''docs.json''\<rparr>),
        ExportPass 7,
        EVENT_END 7 (Some \<lparr>outputDirectory = ''/out'', outputFile = ''docs.json''\<rparr>)]
   \<and> fst (generateJson exampleEnv 7 ''docs.json'' exampleState) = Inr ()
   \<and> written (snd (generateJson exampleEnv 7 ''docs.json'' exampleState)) = [(''docs.json'', ''{}'')]"
proof -
  have w: "writeFile exampleEnv (path_resolve exampleEnv ''docs.json'')
             (JSON_stringify exampleEnv (serializer_toObject exampleEnv 7))"
    by (simp add: exampleEnv_def)
  have v: "path_dirname exampleEnv p = ''/out''" "path_basename exampleEnv p = ''docs.json''"
    "path_resolve exampleEnv p = p" "JSON_stringify exampleEnv j = ''{}''"
    "serializeEvents exampleState = []" "written exampleState = []" for p j
    by (simp_all add: exampleEnv_def exampleState_def)
  from generateJson_lifecycle[of exampleEnv 7 "''docs.json''" exampleState] w
  show ?thesis by (simp add: v)
qed

text \<open>
  The example has two call signatures at address 0, an index and a set signature:
  the result holds the four in order and the array at address 0 is as it was.
\<close>

theorem getAllSignatures_concatenation_witness:
  "storeOk exampleStore \<and> holdsSignatures exampleStore (Some 0) exampleDeclaration
   \<and> cells (snd (getAllSignatures (Some 0) exampleDeclaration exampleStore))
        (fst (getAllSignatures (Some 0) exampleDeclaration exampleStore)) =
       Some [exampleSignature 6 ''call'', exampleSignature 7 ''call'',
             exampleSignature 8 ''__index'', exampleSignature 9 ''__set'']
   \<and> cells (snd (getAllSignatures (Some 0) exampleDeclaration exampleStore)) 0 =
       Some [exampleSignature 6 ''call'', exampleSignature 7 ''call'']"
proof -
  have ok: "storeOk exampleStore"
    by (simp add: storeOk_def exampleStore_def)
  have holds: "holdsSignatures exampleStore (Some 0) exampleDeclaration"
    by (simp add: holdsSignatures_def exampleStore_def exampleDeclaration_def)
  have old: "cells exampleStore 0 = Some [exampleSignature 6 ''call'', exampleSignature 7 ''call'']"
    by (simp add: exampleStore_def)
  have fields: "signatures exampleDeclaration = Some [exampleSignature 6 ''call'', exampleSignature 7 ''call'']"
    "indexSignature exampleDeclaration = Some (exampleSignature 8 ''__index'')"
    "getSignature exampleDeclaration = None"
    "setSignature exampleDeclaration = Some (exampleSignature 9 ''__set'')"
    by (simp_all add: exampleDeclaration_def)
  note t = getAllSignatures_concatenation[OF ok holds]
  from t have a: "cells (snd (getAllSignatures (Some 0) exampleDeclaration exampleStore))
        (fst (getAllSignatures (Some 0) exampleDeclaration exampleStore)) =
       Some [exampleSignature 6 ''call'', exampleSignature 7 ''call'',
             exampleSignature 8 ''__index'', exampleSignature 9 ''__set'']"
    by (simp add: fields)
  from t have "cells exampleStore 0 \<noteq> None \<longrightarrow>
      cells (snd (getAllSignatures (Some 0) exampleDeclaration exampleStore)) 0 = cells exampleStore 0"
    by blast
  then have b: "cells (snd (getAllSignatures (Some 0) exampleDeclaration exampleStore)) 0 =
       Some [exampleSignature 6 ''call'', exampleSignature 7 ''call'']"
    by (simp add: old)
  from ok holds a b show ?thesis by (intro conjI)
qed

text \<open>
  The visits of the example, as a recording visitor sees them.
\<close>

theorem traverse_structural_children_witness:
  "traverse container_traverse record_visit exampleDeclaration [] =
     [(TypeParameterR \<lparr>tp_id = 4, tp_name = ''T'', tp_kind = 131072\<rparr>, TypeParameter),
      (DeclarationR (plainDeclaration 5 ''__type'' 65536 []), TypeLiteral),
      (SignatureR (exampleSignature 6 ''call''), Signatures),
      (SignatureR (exampleSignature 7 ''call''), Signatures),
      (SignatureR (exampleSignature 8 ''__index''), IndexSignature),
      (SignatureR (exampleSignature 9 ''__set''), SetSignature),
      (DeclarationR (plainDeclaration 2 ''bar'' 2048 []), Children),
      (DeclarationR (plainDeclaration 3 ''baz'' 2048 []), Children)]"
  using traverse_structural_children[of container_traverse record_visit exampleDeclaration "[]"]
  by (simp add: exampleDeclaration_def container_traverse_def record_visit_def)

text \<open>
  C2 as stated fails: the example has an empty list of extended types, and its record
  has the field \<open>extendedTypes\<close> with an empty array as value.
\<close>

theorem toObject_empty_list_counterexample:
  "extendedTypes exampleDeclaration = Some []
   \<and> map_of (toObject exampleSuper exampleTypeToObject exampleDeclaration) ''extendedTypes'' = Some (JArray [])"
proof -
  have e: "extendedTypes exampleDeclaration = Some []" by (simp add: exampleDeclaration_def)
  have "map_of (toObject exampleSuper exampleTypeToObject exampleDeclaration) ''extendedTypes'' =
        (case extendedTypes exampleDeclaration of
           None \<Rightarrow> map_of (exampleSuper exampleDeclaration) ''extendedTypes''
         | Some ts \<Rightarrow> Some (JArray (map exampleTypeToObject ts)))"
    unfolding toObject_def Let_def
    by (simp add: map_of_ifTruthy_other map_of_ifTruthy_object cong: option.case_cong)
  with e show ?thesis by simp
qed

text \<open>
  The record of the example: the type and the inherited member are written, the empty
  default value and the fields that are not set are not.
\<close>

theorem toObject_optional_fields_witness:
  "map_of (toObject exampleSuper exampleTypeToObject exampleDeclaration) ''type'' =
     Some (JObject [(''type'', JString ''reflection'')])
   \<and> map_of (toObject exampleSuper exampleTypeToObject exampleDeclaration) ''defaultValue'' = None
   \<and> map_of (toObject exampleSuper exampleTypeToObject exampleDeclaration) ''overwrites'' = None
   \<and> map_of (toObject exampleSuper exampleTypeToObject exampleDeclaration) ''inheritedFrom'' =
     Some (JObject [(''type'', JString ''reference''), (''name'', JString ''Base.foo'')])
   \<and> map_of (toObject exampleSuper exampleTypeToObject exampleDeclaration) ''extendedBy'' = None"
  using toObject_optional_fields[of exampleSuper exampleTypeToObject exampleDeclaration]
  by (simp add: exampleDeclaration_def exampleSuper_def exampleTypeToObject_def)


end
